theory Spec2Isabelle
  imports Complex_Main "HOL-Library.Multiset"
begin

section \<open>JavaScript strings\<close>

text \<open>
  A JavaScript string is modelled as a \<open>string\<close> whose characters are the code units
  0..255 (ASCII and Latin-1).  \<open>code\<close> is \<open>charCodeAt\<close>.
\<close>

definition code :: "char \<Rightarrow> nat" where
  "code c = of_char c"

definition is_digit :: "char \<Rightarrow> bool" where
  "is_digit c = (48 \<le> code c \<and> code c \<le> 57)"

definition is_upper :: "char \<Rightarrow> bool" where
  "is_upper c = (65 \<le> code c \<and> code c \<le> 90)"

definition is_lower :: "char \<Rightarrow> bool" where
  "is_lower c = (97 \<le> code c \<and> code c \<le> 122)"

text \<open>The regular-expression classes \<open>\w\<close> and \<open>\s\<close>, and the white space \<open>trim\<close> strips.\<close>

definition is_word :: "char \<Rightarrow> bool" where
  "is_word c = (is_lower c \<or> is_upper c \<or> is_digit c \<or> c = CHR ''_'')"

definition is_space :: "char \<Rightarrow> bool" where
  "is_space c = ((9 \<le> code c \<and> code c \<le> 13) \<or> code c = 32 \<or> code c = 160)"

text \<open>\<open>String.prototype.toLowerCase\<close> on the code units 0..255.\<close>

definition lower_char :: "char \<Rightarrow> char" where
  "lower_char c =
     (if is_upper c \<or> (192 \<le> code c \<and> code c \<le> 222 \<and> code c \<noteq> 215)
      then char_of (code c + 32) else c)"

definition toLowerCase :: "string \<Rightarrow> string" where
  "toLowerCase s = map lower_char s"

definition trim :: "string \<Rightarrow> string" where
  "trim s = rev (dropWhile is_space (rev (dropWhile is_space s)))"

fun startsWith :: "string \<Rightarrow> string \<Rightarrow> bool" where
  "startsWith s [] = True"
| "startsWith [] (c # cs) = False"
| "startsWith (d # ds) (c # cs) = (d = c \<and> startsWith ds cs)"

text \<open>\<open>s.includes(sub)\<close>.\<close>

fun str_includes :: "string \<Rightarrow> string \<Rightarrow> bool" where
  "str_includes [] sub = (sub = [])"
| "str_includes (c # cs) sub = (startsWith (c # cs) sub \<or> str_includes cs sub)"

section \<open>Regular expressions\<close>

text \<open>
  The regular expressions of the source are written as terms of \<open>rx\<close> and run by a
  backtracking matcher.  A position is the pair of the text already read (reversed) and
  the text still to read.  \<open>rx_match\<close> lists the positions at which a match starting
  at the given position can end, in the order in which a backtracking matcher finds
  them: the left alternative first, the longest repetition first.
\<close>

datatype rx =
    Chr "char \<Rightarrow> bool"
  | Eps
  | Bnd
  | Seq rx rx
  | Alt rx rx
  | Star rx

type_synonym pos = "string \<times> string"

definition word_before :: "string \<Rightarrow> bool" where
  "word_before b = (case b of [] \<Rightarrow> False | c # _ \<Rightarrow> is_word c)"

fun star_iter :: "(pos \<Rightarrow> pos list) \<Rightarrow> nat \<Rightarrow> pos \<Rightarrow> pos list" where
  "star_iter f 0 p = [p]"
| "star_iter f (Suc n) p =
     concat (map (star_iter f n) (filter (\<lambda>q. length (snd q) < length (snd p)) (f p))) @ [p]"

primrec rx_match :: "rx \<Rightarrow> pos \<Rightarrow> pos list" where
  "rx_match (Chr P) p =
     (case snd p of [] \<Rightarrow> [] | c # cs \<Rightarrow> if P c then [(c # fst p, cs)] else [])"
| "rx_match Eps p = [p]"
| "rx_match Bnd p = (if word_before (fst p) \<noteq> word_before (snd p) then [p] else [])"
| "rx_match (Seq x y) p = concat (map (rx_match y) (rx_match x p))"
| "rx_match (Alt x y) p = rx_match x p @ rx_match y p"
| "rx_match (Star x) p = star_iter (rx_match x) (length (snd p)) p"

text \<open>\<open>regex.test(s)\<close>: is there a match starting anywhere in \<open>s\<close>?\<close>

fun rx_search :: "rx \<Rightarrow> string \<Rightarrow> string \<Rightarrow> bool" where
  "rx_search x b [] = (rx_match x (b, []) \<noteq> [])"
| "rx_search x b (c # cs) = (rx_match x (b, c # cs) \<noteq> [] \<or> rx_search x (c # b) cs)"

definition rx_test :: "rx \<Rightarrow> string \<Rightarrow> bool" where
  "rx_test x s = rx_search x [] s"

text \<open>
  \<open>s.match(regex)\<close> with the flag \<open>g\<close>: the texts of the successive leftmost matches,
  each search resuming where the previous match ended (one character further after an
  empty match).  \<open>skip\<close> counts the characters of the previous match still to pass.
\<close>

fun rx_scan :: "rx \<Rightarrow> nat \<Rightarrow> string \<Rightarrow> string \<Rightarrow> string list" where
  "rx_scan x skip b [] = (if skip = 0 \<and> rx_match x (b, []) \<noteq> [] then [[]] else [])"
| "rx_scan x skip b (c # cs) =
     (if 0 < skip then rx_scan x (skip - 1) (c # b) cs
      else case rx_match x (b, c # cs) of
             [] \<Rightarrow> rx_scan x 0 (c # b) cs
           | q # _ \<Rightarrow>
               let m = take (length (c # cs) - length (snd q)) (c # cs)
               in m # rx_scan x (length m - 1) (c # b) cs)"

definition match_all :: "rx \<Rightarrow> string \<Rightarrow> string list" where
  "match_all x s = rx_scan x 0 [] s"

text \<open>
  Pattern characters under the flag \<open>i\<close>: a letter of the pattern matches both of its
  cases.  All patterns of the source are ASCII.
\<close>

definition same_letter :: "char \<Rightarrow> char \<Rightarrow> bool" where
  "same_letter c d = (d = c \<or> (is_upper d \<and> lower_char d = c) \<or> (is_upper c \<and> lower_char c = d))"

definition lit :: "char \<Rightarrow> rx" where
  "lit c = Chr (same_letter c)"

definition str :: "string \<Rightarrow> rx" where
  "str s = foldr (\<lambda>c r. Seq (lit c) r) s Eps"

definition Plus :: "rx \<Rightarrow> rx" where
  "Plus x = Seq x (Star x)"

definition Opt :: "rx \<Rightarrow> rx" where
  "Opt x = Alt x Eps"

fun alts :: "string list \<Rightarrow> rx" where
  "alts [] = Chr (\<lambda>_. False)"
| "alts [s] = str s"
| "alts (s # ss) = Alt (str s) (alts ss)"

section \<open>The chart-type registry: keys and keywords\<close>

text \<open>
  \<open>ECHARTS_TYPE_CONFIGS\<close> of \<open>echartsConfig.ts\<close>, as \<open>Object.entries\<close> lists it: the
  registry key and the keyword list of every entry, in the order of the source.
\<close>

definition ECHARTS_TYPE_CONFIGS :: "(string \<times> string list) list" where
  "ECHARTS_TYPE_CONFIGS =
   [(''bar'', [''bar'', ''bars'', ''column'', ''columns'']),
    (''stackedbar'', [''stacked bar'', ''stacked column'', ''stacked bars'']),
    (''groupedbar'', [''grouped bar'', ''grouped column'', ''grouped bars'']),
    (''line'', [''line'', ''lines'', ''graph'', ''graphs'', ''trend'']),
    (''area'', [''area'', ''areas'', ''filled'']),
    (''stackedarea'', [''stacked area'', ''stacked areas'']),
    (''pie'', [''pie'', ''pies'', ''circle'', ''percentage'', ''proportion'']),
    (''donut'', [''donut'', ''doughnut'']),
    (''scatter'', [''scatter'', ''scatter plot'', ''scatterplot'']),
    (''bubble'', [''bubble'', ''bubbles'']),
    (''radar'', [''radar'', ''spider'', ''web'', ''polar'']),
    (''heatmap'', [''heatmap'', ''heat map'']),
    (''treemap'', [''treemap'', ''tree map'', ''hierarchy'']),
    (''funnel'', [''funnel'', ''funnels'', ''conversion'']),
    (''sankey'', [''sankey'', ''flow'', ''alluvial'']),
    (''sunburst'', [''sunburst'', ''sun burst'', ''hierarchical pie'']),
    (''radialbar'', [''radial'', ''radial bar'', ''gauge'']),
    (''polararea'', [''polar area'', ''polar area chart'']),
    (''histogram'', [''histogram'', ''histograms'']),
    (''boxplot'', [''box plot'', ''boxplot'', ''box and whisker'']),
    (''lollipop'', [''lollipop'', ''lollipops'']),
    (''density'', [''density plot'', ''density'']),
    (''candlestick'',
       [''candlestick'', ''candle'', ''ohlc'', ''financial'', ''stock'', ''trading'']),
    (''parallel'', [''parallel'', ''parallel coordinates'', ''multivariate'', ''correlation'']),
    (''graph'',
       [''graph'', ''network'', ''node'', ''link'', ''relationship'', ''connection'',
        ''graph diagram'']),
    (''themeriver'', [''theme river'', ''stream'', ''flow'', ''timeline'', ''event flow'']),
    (''effectscatter'',
       [''effect scatter'', ''ripple'', ''animated scatter'', ''pulsing scatter'']),
    (''lines'', [''lines'', ''route'', ''path'', ''trajectory'', ''movement'', ''flow lines'']),
    (''tree'',
       [''tree'', ''hierarchical tree'', ''organization'', ''org chart'', ''tree diagram'']),
    (''calendar'',
       [''calendar'', ''calendar heatmap'', ''heat calendar'', ''activity calendar'',
        ''daily''])]"

section \<open>Chart-type detection\<close>

text \<open>
  \<open>Array.prototype.sort\<close> with a comparator is stable: \<open>x\<close> goes before \<open>y\<close> when the
  comparator is negative, after it when positive, and keeps its place otherwise.
\<close>

fun insort_cmp :: "('a \<Rightarrow> 'a \<Rightarrow> int) \<Rightarrow> 'a \<Rightarrow> 'a list \<Rightarrow> 'a list" where
  "insort_cmp cmp x [] = [x]"
| "insort_cmp cmp x (y # ys) = (if cmp x y \<le> 0 then x # y # ys else y # insort_cmp cmp x ys)"

definition sort_cmp :: "('a \<Rightarrow> 'a \<Rightarrow> int) \<Rightarrow> 'a list \<Rightarrow> 'a list" where
  "sort_cmp cmp xs = foldr (insort_cmp cmp) xs []"

text \<open>\<open>Math.max(...keywords.map((k) => k.length))\<close>, for the non-empty lists of the registry.\<close>

definition maxKeyword :: "string list \<Rightarrow> nat" where
  "maxKeyword kws = foldr max (map length kws) 0"

definition sortedConfigs :: "(string \<times> string list) list" where
  "sortedConfigs =
     sort_cmp (\<lambda>a b. int (maxKeyword (snd b)) - int (maxKeyword (snd a))) ECHARTS_TYPE_CONFIGS"

text \<open>
  \<open>new RegExp(`\\b${keyword.replace(/\s+/g, "\\s+")}\\b`, "i")\<close>: each run of white
  space of the keyword becomes \<open>\s+\<close>, the other characters stand for themselves.
\<close>

function keyword_body :: "string \<Rightarrow> rx" where
  "keyword_body [] = Eps"
| "keyword_body (c # cs) =
     (if is_space c then Seq (Plus (Chr is_space)) (keyword_body (dropWhile is_space cs))
      else Seq (lit c) (keyword_body cs))"
  by pat_completeness auto
termination
  by (relation "measure length") (auto simp: less_Suc_eq_le length_dropWhile_le)

definition keyword_regex :: "string \<Rightarrow> rx" where
  "keyword_regex keyword = Seq Bnd (Seq (keyword_body keyword) Bnd)"

text \<open>The test shared by \<open>detectEChartsType\<close> and the assembler for a dual trend line.\<close>

definition multi_trendline_rx :: rx where
  "multi_trendline_rx =
     Seq Bnd (Seq (alts [''dual'', ''multiple''])
       (Seq (Star (Chr is_space))
         (Seq (Alt (str ''trendline'') (Seq (str ''trend'') (Seq (Star (Chr is_space)) (str ''line''))))
           Bnd)))"

definition mentions_multi_trendline :: "string \<Rightarrow> bool" where
  "mentions_multi_trendline promptLower =
     (str_includes promptLower ''dual trendline'' \<or>
      str_includes promptLower ''multiple trendline'' \<or>
      rx_test multi_trendline_rx promptLower)"

fun first_keyword_hit :: "string list \<Rightarrow> string \<Rightarrow> bool" where
  "first_keyword_hit [] promptLower = False"
| "first_keyword_hit (keyword # rest) promptLower =
     (if rx_test (keyword_regex keyword) promptLower then True
      else first_keyword_hit rest promptLower)"

fun search_configs :: "(string \<times> string list) list \<Rightarrow> string \<Rightarrow> string" where
  "search_configs [] promptLower = ''bar''"
| "search_configs ((chartType, keywords) # rest) promptLower =
     (if first_keyword_hit keywords promptLower then chartType
      else search_configs rest promptLower)"

definition detectEChartsType :: "string \<Rightarrow> string" where
  "detectEChartsType prompt =
     (let promptLower = trim (toLowerCase prompt)
      in if mentions_multi_trendline promptLower then ''line''
         else search_configs sortedConfigs promptLower)"

section \<open>JSON values and objects\<close>

text \<open>
  A JavaScript number is \<open>NaN\<close>, an infinity, or a finite number given by its value.
  Only \<open>typeof\<close>, \<open>isNaN\<close>, truthiness, comparison, \<open>Math.min\<close> and \<open>Math.max\<close> are
  applied to numbers here.
\<close>

datatype jsnum = NaN | NegInf | Fin rat | PosInf

text \<open>
  The values of the data: an object is the list of its own properties in the order in
  which \<open>for ... in\<close> and \<open>Object.keys\<close> enumerate them.  Properties inherited from
  \<open>Object.prototype\<close> are not modelled.
\<close>

datatype jsval =
    JUndefined
  | JNull
  | JBool bool
  | JNum jsnum
  | JStr string
  | JArr "jsval list"
  | JObj "(string \<times> jsval) list"

type_synonym obj = "(string \<times> jsval) list"

text \<open>\<open>item[key]\<close>: the value of an own property, \<open>undefined\<close> when there is none.\<close>

definition obj_get :: "obj \<Rightarrow> string \<Rightarrow> jsval" where
  "obj_get item key = (case map_of item key of None \<Rightarrow> JUndefined | Some v \<Rightarrow> v)"

text \<open>
  A property name is an array index when it is the canonical decimal form of an integer
  below \<open>2^32 - 1\<close>.  An object enumerates its array indices first, in ascending order,
  and its other properties after them, in the order of their creation.
\<close>

definition dec_value :: "string \<Rightarrow> int" where
  "dec_value s = foldl (\<lambda>n c. 10 * n + (int (code c) - 48)) 0 s"

definition is_array_index :: "string \<Rightarrow> bool" where
  "is_array_index k =
     (k \<noteq> [] \<and> list_all is_digit k \<and> (k = ''0'' \<or> hd k \<noteq> CHR ''0'') \<and>
      length k \<le> 10 \<and> dec_value k < 4294967295)"

fun insert_index :: "string \<Rightarrow> jsval \<Rightarrow> obj \<Rightarrow> obj" where
  "insert_index k v [] = [(k, v)]"
| "insert_index k v ((k', v') # rest) =
     (if is_array_index k' \<and> dec_value k' < dec_value k
      then (k', v') # insert_index k v rest
      else (k, v) # (k', v') # rest)"

text \<open>\<open>result[newKey] = value\<close>.\<close>

definition obj_set :: "obj \<Rightarrow> string \<Rightarrow> jsval \<Rightarrow> obj" where
  "obj_set result newKey v =
     (if newKey \<in> fst ` set result
      then map (\<lambda>(k, w). if k = newKey then (k, v) else (k, w)) result
      else if is_array_index newKey then insert_index newKey v result
      else result @ [(newKey, v)])"

text \<open>Template literals convert a number such as an index or a length to decimal digits.\<close>

fun show_nat :: "nat \<Rightarrow> string" where
  "show_nat n =
     (if n < 10 then [char_of (48 + n)]
      else show_nat (n div 10) @ [char_of (48 + n mod 10)])"

section \<open>Flattening\<close>

text \<open>
  \<open>flattenObject(obj, prefix, result)\<close> of the chart generator.  The loop over the
  properties is \<open>flatten_props\<close>, the \<open>forEach\<close> over the items of an array of objects is
  \<open>flatten_items\<close>; the result object is passed along and returned.  The type of the
  data has no \<open>Date\<close> values.
\<close>

fun flattenObject :: "jsval \<Rightarrow> string \<Rightarrow> obj \<Rightarrow> obj"
  and flatten_props :: "(string \<times> jsval) list \<Rightarrow> string \<Rightarrow> obj \<Rightarrow> obj"
  and flatten_items :: "jsval list \<Rightarrow> string \<Rightarrow> nat \<Rightarrow> obj \<Rightarrow> obj" where
  "flattenObject (JObj props) prefix result = flatten_props props prefix result"
| "flattenObject JUndefined prefix result = result"
| "flattenObject JNull prefix result = result"
| "flattenObject (JBool b) prefix result = result"
| "flattenObject (JNum n) prefix result = result"
| "flattenObject (JStr s) prefix result = result"
| "flattenObject (JArr items) prefix result = result"
| "flatten_props [] prefix result = result"
| "flatten_props ((key, v) # rest) prefix result =
     (let newKey = (if prefix \<noteq> [] then prefix @ ''.'' @ key else key) in
      flatten_props rest prefix
        (case v of
           JNull \<Rightarrow> obj_set result newKey v
         | JUndefined \<Rightarrow> obj_set result newKey v
         | JArr items \<Rightarrow>
             (case items of
                [] \<Rightarrow> result
              | firstItem # _ \<Rightarrow>
                  (case firstItem of
                     JNum _ \<Rightarrow> obj_set result newKey v
                   | JStr _ \<Rightarrow> obj_set result newKey v
                   | JBool _ \<Rightarrow> obj_set result newKey v
                   | JObj _ \<Rightarrow> flatten_items items newKey 0 result
                   | JArr _ \<Rightarrow> flatten_items items newKey 0 result
                   | _ \<Rightarrow> result))
         | JObj _ \<Rightarrow> flattenObject v newKey result
         | _ \<Rightarrow> obj_set result newKey v))"
| "flatten_items [] newKey idx result = result"
| "flatten_items (item # items) newKey idx result =
     flatten_items items newKey (Suc idx)
       (case item of
          JObj _ \<Rightarrow> flattenObject item (newKey @ ''['' @ show_nat idx @ '']'') result
        | _ \<Rightarrow> result)"

definition flatten :: "jsval \<Rightarrow> obj" where
  "flatten item = flattenObject item [] []"

section \<open>The JavaScript runtime\<close>

text \<open>
  What the program takes from its runtime and the source does not define:
  whether \<open>Date.parse\<close> accepts a string, \<open>parseFloat\<close>, the decimal form of a number,
  \<open>JSON.stringify\<close> of the data (\<open>None\<close> when it throws), and the colour that the
  \<open>n\<close>-th call of \<open>generateRandomColor\<close> draws from \<open>Math.random\<close>.
\<close>

record js_env =
  dateParses :: "string \<Rightarrow> bool"
  parseFloat :: "string \<Rightarrow> jsnum"
  numberToString :: "jsnum \<Rightarrow> string"
  jsonStringify :: "jsval list \<Rightarrow> string option"
  randomColor :: "nat \<Rightarrow> string"

section \<open>Field classification\<close>

text \<open>
  The \<open>dataKeys\<close> memo of the chart generator.  \<open>undefined\<close> is \<open>None\<close>; \<open>a || b\<close> is
  \<open>js_or\<close>, which keeps \<open>a\<close> when it is a non-empty string.
\<close>

record dataKeys_t =
  allKeys :: "string list"
  numericKeys :: "string list"
  stringKeys :: "string list"
  dateKeys :: "string list"
  keys_nameKey :: "string option"
  keys_valueKey :: "string option"
  flattenedData :: "obj list"

definition truthy_str :: "string option \<Rightarrow> bool" where
  "truthy_str a = (case a of None \<Rightarrow> False | Some s \<Rightarrow> s \<noteq> [])"

definition js_or :: "string option \<Rightarrow> string option \<Rightarrow> string option" where
  "js_or a b = (if truthy_str a then a else b)"

definition first_of :: "string list \<Rightarrow> string option" where
  "first_of xs = (case xs of [] \<Rightarrow> None | x # _ \<Rightarrow> Some x)"

definition name_pattern :: rx where
  "name_pattern = alts
     [''name'', ''label'', ''category'', ''title'', ''id'', ''key'', ''agent'', ''month'',
      ''day'', ''date'', ''time'', ''year'', ''period'', ''quarter'', ''week'', ''season'',
      ''location'', ''region'', ''country'', ''city'', ''state'', ''product'', ''item'',
      ''type'', ''class'', ''group'', ''team'', ''department'', ''category'', ''tag'']"

definition value_pattern :: rx where
  "value_pattern = alts
     [''value'', ''amount'', ''count'', ''total'', ''sum'', ''quantity'', ''number'',
      ''price'', ''cost'', ''revenue'', ''sales'', ''score'', ''rating'', ''interaction'',
      ''kpi'', ''satisfaction'', ''metric'', ''measure'', ''data'', ''result'', ''outcome'',
      ''performance'', ''efficiency'', ''rate'', ''percentage'', ''percent'', ''ratio'',
      ''index'', ''level'', ''size'', ''volume'', ''weight'', ''length'', ''height'',
      ''width'', ''depth'', ''area'', ''distance'', ''speed'', ''time'', ''duration'',
      ''frequency'']"

definition is_numeric_value :: "jsval \<Rightarrow> bool" where
  "is_numeric_value v = (case v of JNum n \<Rightarrow> n \<noteq> NaN | _ \<Rightarrow> False)"

definition is_string_value :: "jsval \<Rightarrow> bool" where
  "is_string_value v = (case v of JStr _ \<Rightarrow> True | _ \<Rightarrow> False)"

definition is_date_value :: "js_env \<Rightarrow> jsval \<Rightarrow> bool" where
  "is_date_value env v = (case v of JStr s \<Rightarrow> dateParses env s | _ \<Rightarrow> False)"

definition classify :: "js_env \<Rightarrow> jsval list \<Rightarrow> dataKeys_t" where
  "classify env data =
     (case data of
        [] \<Rightarrow> \<lparr>allKeys = [], numericKeys = [], stringKeys = [], dateKeys = [],
               keys_nameKey = Some [], keys_valueKey = Some [], flattenedData = []\<rparr>
      | firstItem # _ \<Rightarrow>
          let flattened = flatten firstItem;
              all = map fst flattened;
              numeric = filter (\<lambda>key. is_numeric_value (obj_get flattened key)) all;
              strings = filter (\<lambda>key. is_string_value (obj_get flattened key)) all;
              dates = filter (\<lambda>key. is_date_value env (obj_get flattened key)) all
          in \<lparr>allKeys = all, numericKeys = numeric, stringKeys = strings, dateKeys = dates,
              keys_nameKey =
                js_or (find (rx_test name_pattern) strings)
                  (js_or (first_of dates) (js_or (first_of strings) (first_of all))),
              keys_valueKey =
                js_or (find (rx_test value_pattern) numeric)
                  (js_or (first_of numeric) (Some [])),
              flattenedData = map flatten data\<rparr>)"

section \<open>String helpers of the prompt interpreter\<close>

text \<open>\<open>xs.join(sep)\<close>.\<close>

fun join :: "string \<Rightarrow> string list \<Rightarrow> string" where
  "join sep [] = []"
| "join sep [x] = x"
| "join sep (x # y # ys) = x @ sep @ join sep (y # ys)"

text \<open>
  \<open>s.split(/[._-]/)\<close> cuts at every separator; \<open>s.split(/\s+/)\<close> cuts at every run of
  white space, which is a cut at every separator once each run is squeezed to one.
\<close>

fun split_on :: "(char \<Rightarrow> bool) \<Rightarrow> string \<Rightarrow> string list" where
  "split_on P [] = [[]]"
| "split_on P (c # cs) =
     (if P c then [] # split_on P cs
      else case split_on P cs of [] \<Rightarrow> [[c]] | w # ws \<Rightarrow> (c # w) # ws)"

fun squeeze :: "(char \<Rightarrow> bool) \<Rightarrow> string \<Rightarrow> string" where
  "squeeze P [] = []"
| "squeeze P [c] = [c]"
| "squeeze P (c # d # cs) = (if P c \<and> P d then squeeze P (d # cs) else c # squeeze P (d # cs))"

definition split_spaces :: "string \<Rightarrow> string list" where
  "split_spaces s = split_on is_space (squeeze is_space s)"

definition is_key_separator :: "char \<Rightarrow> bool" where
  "is_key_separator c = (c = CHR ''.'' \<or> c = CHR ''_'' \<or> c = CHR ''-'')"

definition is_underscore_or_dash :: "char \<Rightarrow> bool" where
  "is_underscore_or_dash c = (c = CHR ''_'' \<or> c = CHR ''-'')"

text \<open>\<open>s.replace(/[_-]/g, "")\<close> and \<open>s.replace(/c/g, " ")\<close> for a class of characters.\<close>

definition strip_separators :: "string \<Rightarrow> string" where
  "strip_separators s = filter (\<lambda>c. \<not> is_underscore_or_dash c) s"

definition blank_out :: "(char \<Rightarrow> bool) \<Rightarrow> string \<Rightarrow> string" where
  "blank_out P s = map (\<lambda>c. if P c then CHR '' '' else c) s"

text \<open>\<open>Array.from(new Set(xs))\<close>: the first occurrence of every element, in order.\<close>

fun unique :: "'a list \<Rightarrow> 'a list \<Rightarrow> 'a list" where
  "unique seen [] = []"
| "unique seen (x # xs) = (if x \<in> set seen then unique seen xs else x # unique (x # seen) xs)"

section \<open>Colour extraction\<close>

definition colorMap :: "(string \<times> string) list" where
  "colorMap =
   [(''red'', ''#ff0000''), (''blue'', ''#0066ff''), (''green'', ''#00cc00''),
    (''yellow'', ''#ffcc00''), (''orange'', ''#ff6600''), (''purple'', ''#9900cc''),
    (''pink'', ''#ff00cc''), (''teal'', ''#00cccc''), (''cyan'', ''#00ffff''),
    (''magenta'', ''#ff00ff''), (''lime'', ''#00ff00''), (''brown'', ''#8b4513''),
    (''black'', ''#000000''), (''white'', ''#ffffff''), (''gray'', ''#808080''),
    (''grey'', ''#808080''), (''navy'', ''#000080''), (''maroon'', ''#800000''),
    (''olive'', ''#808000''), (''aqua'', ''#00ffff''), (''silver'', ''#c0c0c0''),
    (''gold'', ''#ffd700''), (''indigo'', ''#4b0082''), (''violet'', ''#8a2be2''),
    (''coral'', ''#ff7f50''), (''salmon'', ''#fa8072''), (''turquoise'', ''#40e0d0''),
    (''khaki'', ''#f0e68c''), (''lavender'', ''#e6e6fa''), (''plum'', ''#dda0dd''),
    (''beige'', ''#f5f5dc''), (''tan'', ''#d2b48c'')]"

text \<open>\<open>new RegExp(`\\b${colorName}\\b`, "i")\<close>.\<close>

definition color_name_regex :: "string \<Rightarrow> rx" where
  "color_name_regex colorName = Seq Bnd (Seq (str colorName) Bnd)"

definition is_hex_digit :: "char \<Rightarrow> bool" where
  "is_hex_digit c = (is_digit c \<or> (97 \<le> code c \<and> code c \<le> 102) \<or> (65 \<le> code c \<and> code c \<le> 70))"

text \<open>\<open>/#[0-9a-f]{3,6}/gi\<close> and \<open>/rgba?\([^)]+\)/gi\<close>.\<close>

definition hex_regex :: rx where
  "hex_regex =
     (let h = Chr is_hex_digit
      in Seq (Chr (\<lambda>c. c = CHR ''#''))
           (Seq h (Seq h (Seq h (Opt (Seq h (Opt (Seq h (Opt h)))))))))"

definition rgb_regex :: rx where
  "rgb_regex =
     Seq (str ''rgb'')
       (Seq (Opt (lit CHR ''a''))
         (Seq (Chr (\<lambda>c. c = CHR ''(''))
           (Seq (Plus (Chr (\<lambda>c. c \<noteq> CHR '')''))) (Chr (\<lambda>c. c = CHR '')'')))))"

definition named_colors :: "string \<Rightarrow> string list" where
  "named_colors promptText =
     map snd (filter (\<lambda>(colorName, hex). rx_test (color_name_regex colorName) promptText) colorMap)"

text \<open>A match of four characters is \<open>#rgb\<close> and becomes \<open>#rrggbb\<close>; any other is kept.\<close>

definition expand_hex :: "string \<Rightarrow> string" where
  "expand_hex hex =
     (case hex of
        [h, r, g, b] \<Rightarrow> [CHR ''#'', r, r, g, g, b, b]
      | _ \<Rightarrow> hex)"

definition foundColors :: "string \<Rightarrow> string list" where
  "foundColors promptText =
     named_colors promptText @
     map expand_hex (match_all hex_regex promptText) @
     match_all rgb_regex promptText"

definition extractColors :: "string \<Rightarrow> string list option" where
  "extractColors promptText =
     (let uniqueColors = unique [] (foundColors promptText)
      in if 0 < length uniqueColors then Some uniqueColors else None)"

section \<open>Option builders\<close>

record EChartsElementConfig =
  nameKey :: string
  valueKey :: string
  dataKeys :: "string list option"
  colors :: "string list"
  isStacked :: bool
  isGrouped :: bool
  hasTrendline :: bool
  multipleTrendlines :: bool
  data :: "obj list"

text \<open>Truthiness, \<open>String(v)\<close> and the comparison of numbers.\<close>

definition truthy :: "jsval \<Rightarrow> bool" where
  "truthy v =
     (case v of
        JUndefined \<Rightarrow> False
      | JNull \<Rightarrow> False
      | JBool b \<Rightarrow> b
      | JNum n \<Rightarrow> n \<noteq> NaN \<and> n \<noteq> Fin 0
      | JStr s \<Rightarrow> s \<noteq> []
      | _ \<Rightarrow> True)"

fun js_String :: "js_env \<Rightarrow> jsval \<Rightarrow> string"
  and js_elements :: "js_env \<Rightarrow> jsval list \<Rightarrow> string list" where
  "js_String env JUndefined = ''undefined''"
| "js_String env JNull = ''null''"
| "js_String env (JBool b) = (if b then ''true'' else ''false'')"
| "js_String env (JNum n) = numberToString env n"
| "js_String env (JStr s) = s"
| "js_String env (JArr items) = join '','' (js_elements env items)"
| "js_String env (JObj props) = ''[object Object]''"
| "js_elements env [] = []"
| "js_elements env (v # vs) =
     (if v = JUndefined \<or> v = JNull then [] else js_String env v) # js_elements env vs"

text \<open>\<open>String(item[config.nameKey] || "")\<close>.\<close>

definition label_of :: "js_env \<Rightarrow> obj \<Rightarrow> string \<Rightarrow> string" where
  "label_of env item key =
     js_String env (if truthy (obj_get item key) then obj_get item key else JStr [])"

text \<open>\<open>typeof val === "number" ? val : 0\<close>.\<close>

definition number_or_zero :: "jsval \<Rightarrow> jsnum" where
  "number_or_zero val = (case val of JNum n \<Rightarrow> n | _ \<Rightarrow> Fin 0)"

definition num_less :: "jsnum \<Rightarrow> jsnum \<Rightarrow> bool" where
  "num_less a b =
     (case (a, b) of
        (NaN, _) \<Rightarrow> False
      | (_, NaN) \<Rightarrow> False
      | (NegInf, NegInf) \<Rightarrow> False
      | (NegInf, _) \<Rightarrow> True
      | (_, NegInf) \<Rightarrow> False
      | (PosInf, _) \<Rightarrow> False
      | (_, PosInf) \<Rightarrow> True
      | (Fin x, Fin y) \<Rightarrow> x < y)"

text \<open>
  The sign of \<open>a - b\<close> as a sort comparator reads it: a \<open>NaN\<close> difference counts as 0.
\<close>

definition compare_numbers :: "jsnum \<Rightarrow> jsnum \<Rightarrow> int" where
  "compare_numbers a b = (if num_less a b then - 1 else if num_less b a then 1 else 0)"

definition Math_min :: "jsnum \<Rightarrow> jsnum \<Rightarrow> jsnum" where
  "Math_min a b = (if a = NaN \<or> b = NaN then NaN else if num_less b a then b else a)"

definition Math_max :: "jsnum \<Rightarrow> jsnum \<Rightarrow> jsnum" where
  "Math_max a b = (if a = NaN \<or> b = NaN then NaN else if num_less a b then b else a)"

text \<open>\<open>xs[i]\<close> on an array of numbers or strings: \<open>undefined\<close> outside the array.\<close>

definition num_at :: "jsnum list \<Rightarrow> nat \<Rightarrow> jsval" where
  "num_at xs i = (if i < length xs then JNum (xs ! i) else JUndefined)"

text \<open>\<open>config.colors[i % config.colors.length]\<close>; the index is \<open>NaN\<close> for no colours.\<close>

definition color_at :: "string list \<Rightarrow> nat \<Rightarrow> jsval" where
  "color_at cs i = (if cs = [] then JUndefined else JStr (cs ! (i mod length cs)))"

definition color_index :: "string list \<Rightarrow> nat \<Rightarrow> jsval" where
  "color_index cs i = (if i < length cs then JStr (cs ! i) else JUndefined)"

definition num :: "rat \<Rightarrow> jsval" where
  "num q = JNum (Fin q)"

text \<open>The \<open>pie\<close> entry of the registry.\<close>

definition pie_value :: "js_env \<Rightarrow> jsval \<Rightarrow> jsnum" where
  "pie_value env val =
     (case val of
        JNum n \<Rightarrow> n
      | JStr s \<Rightarrow> (if truthy (JNum (parseFloat env s)) then parseFloat env s else Fin 0)
      | _ \<Rightarrow> Fin 0)"

definition pie_datum :: "js_env \<Rightarrow> EChartsElementConfig \<Rightarrow> nat \<times> obj \<Rightarrow> jsval" where
  "pie_datum env config = (\<lambda>(idx, item).
     JObj [(''value'', JNum (pie_value env (obj_get item (valueKey config)))),
           (''name'', JStr (label_of env item (nameKey config))),
           (''itemStyle'', JObj [(''color'', color_at (colors config) idx)])])"

definition pie_generateOption :: "js_env \<Rightarrow> EChartsElementConfig \<Rightarrow> jsval" where
  "pie_generateOption env config =
     JObj [(''tooltip'',
              JObj [(''trigger'', JStr ''item''),
                    (''formatter'', JStr ''{a} <br/>{b}: {c} ({d}%)'')]),
           (''legend'', JObj [(''orient'', JStr ''vertical''), (''left'', JStr ''left'')]),
           (''series'',
              JArr [JObj [(''name'', JStr (valueKey config)),
                          (''type'', JStr ''pie''),
                          (''radius'', JStr ''50%''),
                          (''data'', JArr (map (pie_datum env config) (enumerate 0 (data config)))),
                          (''emphasis'',
                             JObj [(''itemStyle'',
                                      JObj [(''shadowBlur'', num 10),
                                            (''shadowOffsetX'', num 0),
                                            (''shadowColor'', JStr ''rgba(0, 0, 0, 0.5)'')])])]])]"

text \<open>Parts shared by the category-axis options below.\<close>

definition dark_tooltip :: "(string \<times> jsval) list \<Rightarrow> jsval" where
  "dark_tooltip first =
     JObj (first @
           [(''backgroundColor'', JStr ''rgba(50, 50, 50, 0.9)''),
            (''borderColor'', JStr ''#777''),
            (''borderWidth'', num 1),
            (''textStyle'', JObj [(''color'', JStr ''#fff'')])])"

definition axis_line :: jsval where
  "axis_line = JObj [(''lineStyle'', JObj [(''color'', JStr ''#666'')])]"

definition split_line :: jsval where
  "split_line = JObj [(''lineStyle'', JObj [(''type'', JStr ''dashed''), (''color'', JStr ''#e0e0e0'')])]"

definition axis_label :: "EChartsElementConfig \<Rightarrow> jsval" where
  "axis_label config =
     JObj [(''rotate'', if 10 < length (data config) then num 45 else num 0),
           (''interval'', num 0)]"

definition category_names :: "js_env \<Rightarrow> EChartsElementConfig \<Rightarrow> jsval" where
  "category_names env config =
     JArr (map (\<lambda>item. JStr (label_of env item (nameKey config))) (data config))"

definition grid :: "string \<Rightarrow> jsval" where
  "grid top_edge =
     JObj [(''left'', JStr ''3%''), (''right'', JStr ''4%''), (''bottom'', JStr ''3%''),
           (''top'', JStr top_edge), (''containLabel'', JBool True)]"

text \<open>
  The \<open>boxplot\<close> entry.  \<open>values.length * 0.25\<close>, \<open>* 0.5\<close> and \<open>* 0.75\<close> are exact in
  floating point for every array length, so their floors are the integer quotients.
  When a value is \<open>NaN\<close> the comparator is not consistent and the order that \<open>sort\<close>
  leaves is up to the engine; \<open>sort_cmp\<close> is then one of the possible orders.
\<close>

definition boxplot_values :: "EChartsElementConfig \<Rightarrow> jsnum list" where
  "boxplot_values config =
     sort_cmp compare_numbers
       (map (\<lambda>item. number_or_zero (obj_get item (valueKey config))) (data config))"

definition boxplot_summary :: "jsnum list \<Rightarrow> jsval list" where
  "boxplot_summary values =
     (let q1 = num_at values (length values div 4);
          median = num_at values (length values div 2);
          q3 = num_at values (length values * 3 div 4);
          min_v = num_at values 0;
          max_v = num_at values (length values - 1)
      in [min_v, q1, median, q3, max_v])"

definition boxplot_generateOption :: "js_env \<Rightarrow> EChartsElementConfig \<Rightarrow> jsval" where
  "boxplot_generateOption env config =
     JObj [(''animation'', JBool True),
           (''animationDuration'', num 1000),
           (''tooltip'', dark_tooltip [(''trigger'', JStr ''item'')]),
           (''grid'', grid ''10%''),
           (''xAxis'',
              JObj [(''type'', JStr ''category''),
                    (''data'', category_names env config),
                    (''axisLabel'', axis_label config),
                    (''axisLine'', axis_line)]),
           (''yAxis'',
              JObj [(''type'', JStr ''value''),
                    (''axisLine'', axis_line),
                    (''splitLine'', split_line)]),
           (''series'',
              JArr [JObj [(''name'', JStr (valueKey config)),
                          (''type'', JStr ''boxplot''),
                          (''data'', JArr [JArr (boxplot_summary (boxplot_values config))]),
                          (''itemStyle'', JObj [(''color'', color_index (colors config) 0)])]])]"

text \<open>
  The \<open>candlestick\<close> entry.  \<open>keys[0]\<close> is \<open>undefined\<close> for an empty list of keys, and
  \<open>item[undefined]\<close> reads the property named \<open>undefined\<close>.
\<close>

definition candlestick_keys :: "EChartsElementConfig \<Rightarrow> string list" where
  "candlestick_keys config = (case dataKeys config of Some ks \<Rightarrow> ks | None \<Rightarrow> [valueKey config])"

definition property_name :: "string option \<Rightarrow> string" where
  "property_name k = (case k of None \<Rightarrow> ''undefined'' | Some s \<Rightarrow> s)"

definition ohlcKeys :: "EChartsElementConfig \<Rightarrow> string option list" where
  "ohlcKeys config =
     (let keys = candlestick_keys config
      in if 4 \<le> length keys then map Some (take 4 keys)
         else [first_of keys,
               js_or (first_of keys) (Some (valueKey config)),
               js_or (first_of keys) (Some (valueKey config)),
               js_or (first_of keys) (Some (valueKey config))])"

definition candlestick_datum :: "string option list \<Rightarrow> obj \<Rightarrow> jsnum list" where
  "candlestick_datum ks item =
     (let openVal = obj_get item (property_name (ks ! 0));
          closeVal = obj_get item (property_name (ks ! 1));
          lowVal = obj_get item (property_name (ks ! 2));
          highVal = obj_get item (property_name (ks ! 3));
          open_v = number_or_zero openVal;
          close_v = number_or_zero closeVal;
          low = (case lowVal of JNum n \<Rightarrow> n | _ \<Rightarrow> Math_min open_v close_v);
          high = (case highVal of JNum n \<Rightarrow> n | _ \<Rightarrow> Math_max open_v close_v)
      in [open_v, close_v, low, high])"

definition candlestick_data :: "EChartsElementConfig \<Rightarrow> jsnum list list" where
  "candlestick_data config = map (candlestick_datum (ohlcKeys config)) (data config)"

definition second_color :: "string list \<Rightarrow> jsval" where
  "second_color cs =
     (if truthy (color_index cs 1) then color_index cs 1 else color_index cs 0)"

definition candlestick_generateOption :: "js_env \<Rightarrow> EChartsElementConfig \<Rightarrow> jsval" where
  "candlestick_generateOption env config =
     JObj [(''animation'', JBool True),
           (''animationDuration'', num 1000),
           (''tooltip'',
              dark_tooltip [(''trigger'', JStr ''axis''),
                            (''axisPointer'', JObj [(''type'', JStr ''cross'')])]),
           (''grid'', grid ''15%''),
           (''xAxis'',
              JObj [(''type'', JStr ''category''),
                    (''data'', category_names env config),
                    (''scale'', JBool True),
                    (''boundaryGap'', JBool False),
                    (''axisLabel'', axis_label config),
                    (''axisLine'', axis_line)]),
           (''yAxis'',
              JObj [(''scale'', JBool True),
                    (''splitArea'', JObj [(''show'', JBool True)]),
                    (''axisLine'', axis_line),
                    (''splitLine'', split_line)]),
           (''series'',
              JArr [JObj [(''name'', JStr ''Candlestick''),
                          (''type'', JStr ''candlestick''),
                          (''data'', JArr (map (\<lambda>d. JArr (map JNum d)) (candlestick_data config))),
                          (''itemStyle'',
                             JObj [(''color'', color_index (colors config) 0),
                                   (''color0'', second_color (colors config)),
                                   (''borderColor'', color_index (colors config) 0),
                                   (''borderColor0'', second_color (colors config))])]])]"

text \<open>
  An option structure is either written out, as for the three entries above, or, for
  the other entries of the registry, named by the entry and the configuration its
  builder was applied to: every builder is a function of its configuration alone.
\<close>

datatype echarts_option =
    Option jsval
  | OptionOf string EChartsElementConfig

definition generateOption :: "js_env \<Rightarrow> string \<Rightarrow> EChartsElementConfig \<Rightarrow> echarts_option" where
  "generateOption env chartType config =
     (if chartType = ''pie'' then Option (pie_generateOption env config)
      else if chartType = ''boxplot'' then Option (boxplot_generateOption env config)
      else if chartType = ''candlestick'' then Option (candlestick_generateOption env config)
      else OptionOf chartType config)"

text \<open>\<open>getEChartsConfig(chartType)\<close>: the entry under that key, \<open>null\<close> when there is none.\<close>

definition getEChartsConfig :: "string \<Rightarrow> (string \<times> string list) option" where
  "getEChartsConfig chartType =
     (case map_of ECHARTS_TYPE_CONFIGS chartType of
        None \<Rightarrow> None
      | Some keywords \<Rightarrow> Some (chartType, keywords))"

section \<open>The colour palette\<close>

text \<open>
  The state of the chart generator: the hash of the last accepted pair of data and
  prompt, the stored configuration and error message, the module's cached palette with
  the number of colours drawn so far, and a count of the calls of a registry builder.
\<close>

record GeneratedChartConfig =
  chartType :: string
  echartsOption :: echarts_option
  mapping_nameKey :: string
  mapping_valueKey :: string
  mapping_dataKeys :: "string option"
  config_colors :: "string list"
  promptHash :: string

record generator_state =
  previousHashRef :: string
  chartConfig :: "GeneratedChartConfig option"
  error :: "string option"
  cachedColors :: "string list"
  colorsDrawn :: nat
  builderCalls :: nat

definition getRandomColorPalette ::
    "js_env \<Rightarrow> nat \<Rightarrow> generator_state \<Rightarrow> string list \<times> generator_state" where
  "getRandomColorPalette env count_n st =
     (if length (cachedColors st) < count_n
      then let n = max count_n 20;
               fresh = map (randomColor env) [colorsDrawn st ..< colorsDrawn st + n]
           in (take count_n fresh, st\<lparr>cachedColors := fresh, colorsDrawn := colorsDrawn st + n\<rparr>)
      else (take count_n (cachedColors st), st))"

section \<open>The prompt interpreter\<close>

text \<open>\<open>dataPromptHash\<close>.\<close>

definition dataPromptHash :: "js_env \<Rightarrow> jsval list \<Rightarrow> string \<Rightarrow> string" where
  "dataPromptHash env data_in prompt =
     (if data_in = [] \<or> prompt = [] then []
      else case jsonStringify env data_in of
             Some dataStr \<Rightarrow>
               trim prompt @ ''_'' @ show_nat (length data_in) @ ''_'' @
               show_nat (length dataStr) @ ''_'' @ take 100 dataStr @ ''_'' @
               drop (length dataStr - 100) dataStr
           | None \<Rightarrow> trim prompt @ ''_'' @ show_nat (length data_in) @ ''_error'')"

text \<open>The two trend-line tests; the first is the one of \<open>detectEChartsType\<close>.\<close>

definition trendline_rx :: rx where
  "trendline_rx =
     Seq Bnd
       (Seq (Alt (str ''trendline'')
               (Alt (Seq (str ''trend'') (Seq (Star (Chr is_space)) (str ''line'')))
                    (str ''regression'')))
          Bnd)"

definition mentions_trendline :: "string \<Rightarrow> bool" where
  "mentions_trendline promptLower =
     (str_includes promptLower ''trendline'' \<or>
      str_includes promptLower ''trend line'' \<or>
      str_includes promptLower ''regression'' \<or>
      str_includes promptLower ''linear trend'' \<or>
      rx_test trendline_rx promptLower)"

definition detect_trendline :: "string \<Rightarrow> bool \<times> bool" where
  "detect_trendline promptLower =
     (if mentions_multi_trendline promptLower then (True, True)
      else if mentions_trendline promptLower then (True, False)
      else (False, False))"

definition detect_chartType :: "string \<Rightarrow> bool \<Rightarrow> string" where
  "detect_chartType prompt has_trendline =
     (let detected = detectEChartsType prompt
      in if has_trendline \<and> detected \<noteq> ''line'' \<and> detected \<noteq> ''scatter'' then ''line''
         else detected)"

text \<open>
  \<open>prompt.match(/(\w+)\s+(?:vs|versus|and|&)\s+(\w+)/i)\<close>: the pattern in three parts,
  so that the ends of the parts of the first match give the two groups.
\<close>

fun rx_parts :: "rx list \<Rightarrow> pos \<Rightarrow> pos list list" where
  "rx_parts [] p = [[p]]"
| "rx_parts (x # xs) p = map ((#) p) (concat (map (rx_parts xs) (rx_match x p)))"

fun rx_exec :: "rx list \<Rightarrow> string \<Rightarrow> string \<Rightarrow> pos list option" where
  "rx_exec xs b [] = (case rx_parts xs (b, []) of [] \<Rightarrow> None | m # _ \<Rightarrow> Some m)"
| "rx_exec xs b (c # cs) =
     (case rx_parts xs (b, c # cs) of [] \<Rightarrow> rx_exec xs (c # b) cs | m # _ \<Rightarrow> Some m)"

definition text_between :: "pos \<Rightarrow> pos \<Rightarrow> string" where
  "text_between p q = take (length (snd p) - length (snd q)) (snd p)"

definition vsPattern :: "rx list" where
  "vsPattern =
     [Plus (Chr is_word),
      Seq (Plus (Chr is_space))
        (Seq (alts [''vs'', ''versus'', ''and'', ''&'']) (Plus (Chr is_space))),
      Plus (Chr is_word)]"

definition vsMatch :: "string \<Rightarrow> (string \<times> string) option" where
  "vsMatch prompt =
     (case rx_exec vsPattern [] prompt of
        Some [p0, p1, p2, p3] \<Rightarrow> Some (text_between p0 p1, text_between p2 p3)
      | _ \<Rightarrow> None)"

definition key_matches :: "string \<Rightarrow> string \<Rightarrow> bool" where
  "key_matches word k =
     (let kLower = toLowerCase k; wordLower = toLowerCase word
      in kLower = wordLower \<or> str_includes kLower wordLower \<or> str_includes wordLower kLower \<or>
         strip_separators kLower = strip_separators wordLower)"

definition push_new :: "string option \<Rightarrow> string list \<Rightarrow> string list" where
  "push_new found mentioned =
     (case found of
        Some k \<Rightarrow> if k \<noteq> [] \<and> k \<notin> set mentioned then mentioned @ [k] else mentioned
      | None \<Rightarrow> mentioned)"

definition vs_keys :: "string list \<Rightarrow> string \<Rightarrow> string list" where
  "vs_keys all prompt =
     (case vsMatch prompt of
        None \<Rightarrow> []
      | Some (g1, g2) \<Rightarrow>
          let key1 = trim g1; key2 = trim g2;
              foundKey1 = find (key_matches key1) all;
              foundKey2 = find (key_matches key2) all
          in push_new foundKey2 (push_new foundKey1 []))"

definition clean_word :: "string \<Rightarrow> string" where
  "clean_word w = filter (\<lambda>c. is_lower c \<or> is_digit c) (toLowerCase w)"

definition isMentioned :: "string \<Rightarrow> string \<Rightarrow> bool" where
  "isMentioned promptLower key =
     (let keyLower = toLowerCase key;
          keyFormatted = toLowerCase (blank_out is_underscore_or_dash key);
          keyNoUnderscore = strip_separators keyLower;
          keyParts = split_on is_key_separator keyLower
      in str_includes promptLower keyLower \<or>
         str_includes promptLower keyFormatted \<or>
         str_includes promptLower (toLowerCase (blank_out (\<lambda>c. c = CHR ''_'') key)) \<or>
         str_includes promptLower (toLowerCase (blank_out (\<lambda>c. c = CHR ''.'') key)) \<or>
         list_ex (\<lambda>part. 3 \<le> length part \<and> str_includes promptLower part) keyParts \<or>
         list_ex (\<lambda>w. let wordClean = clean_word w
                      in 3 \<le> length wordClean \<and>
                         (str_includes keyNoUnderscore wordClean \<or>
                          str_includes wordClean keyNoUnderscore \<or>
                          list_ex (\<lambda>part. str_includes part wordClean \<or> str_includes wordClean part)
                            keyParts))
           (split_spaces promptLower))"

fun push_mentioned :: "string \<Rightarrow> string list \<Rightarrow> string list \<Rightarrow> string list" where
  "push_mentioned promptLower [] mentioned = mentioned"
| "push_mentioned promptLower (key # rest) mentioned =
     push_mentioned promptLower rest
       (if isMentioned promptLower key \<and> key \<notin> set mentioned then mentioned @ [key]
        else mentioned)"

definition mentionedKeys :: "dataKeys_t \<Rightarrow> string \<Rightarrow> string list" where
  "mentionedKeys dk prompt =
     push_mentioned (trim (toLowerCase prompt)) (allKeys dk) (vs_keys (allKeys dk) prompt)"

text \<open>The label pattern applied to the mentioned keys is shorter than \<open>name_pattern\<close>.\<close>

definition mentioned_name_pattern :: rx where
  "mentioned_name_pattern = alts
     [''name'', ''label'', ''category'', ''title'', ''id'', ''key'', ''agent'', ''period'',
      ''quarter'', ''week'', ''season'', ''location'', ''region'', ''country'', ''city'',
      ''state'', ''product'', ''item'', ''type'', ''class'', ''group'', ''team'',
      ''department'', ''tag'']"

text \<open>
  The choice of \<open>nameKeyToUse\<close>, \<open>valueKeyToUse\<close> and \<open>dataKeysToUse\<close>, first from the
  mentioned keys, then from a comparison in the prompt.
\<close>

record key_choice =
  nameKeyToUse :: string
  valueKeyToUse :: string
  dataKeysToUse :: "string option"

definition choose_mentioned :: "dataKeys_t \<Rightarrow> string list \<Rightarrow> key_choice \<Rightarrow> key_choice" where
  "choose_mentioned dk mentioned kc =
     (if 0 < length mentioned
      then let mentionedNameKey =
                 find (\<lambda>key. key \<in> set (stringKeys dk) \<or> key \<in> set (dateKeys dk) \<or>
                             rx_test mentioned_name_pattern key) mentioned;
               kc1 = (case mentionedNameKey of
                        Some k \<Rightarrow> if k \<noteq> [] then kc\<lparr>nameKeyToUse := k\<rparr> else kc
                      | None \<Rightarrow> kc);
               mentionedValueKeys =
                 filter (\<lambda>key. key \<in> set (numericKeys dk) \<or> rx_test value_pattern key) mentioned
           in if 0 < length mentionedValueKeys
              then kc1\<lparr>valueKeyToUse := hd mentionedValueKeys,
                       dataKeysToUse :=
                         (if 1 < length mentionedValueKeys
                          then Some (join '','' mentionedValueKeys)
                          else dataKeysToUse kc1)\<rparr>
              else kc1
      else kc)"

definition choose_compared :: "dataKeys_t \<Rightarrow> string \<Rightarrow> bool \<Rightarrow> key_choice \<Rightarrow> key_choice" where
  "choose_compared dk promptLower multiple kc =
     (if (str_includes promptLower '' vs '' \<or> str_includes promptLower '' versus '' \<or>
          str_includes promptLower '' and '' \<or> multiple) \<and>
         2 \<le> length (numericKeys dk)
      then let promptWords = split_spaces promptLower;
               matchingKeys =
                 filter (\<lambda>key. let keyLower = toLowerCase key
                               in list_ex (\<lambda>w. 3 \<le> length w \<and>
                                               (str_includes keyLower w \<or> str_includes w keyLower))
                                    promptWords)
                   (numericKeys dk)
           in if 2 \<le> length matchingKeys
              then kc\<lparr>dataKeysToUse := Some (join '','' matchingKeys),
                      valueKeyToUse := hd matchingKeys\<rparr>
              else kc\<lparr>dataKeysToUse := Some (join '','' (take 2 (numericKeys dk))),
                      valueKeyToUse := hd (numericKeys dk)\<rparr>
      else kc)"

section \<open>The assembler\<close>

text \<open>
  The effect of the chart generator that builds the configuration, run on the current
  data and prompt.  The updates the source defers with \<open>setTimeout\<close> are applied at
  once.  \<open>build_config\<close> is the part after the hash has been stored; it runs under
  the guard \<open>usable\<close>, where the label key and the value key of the classification
  are non-empty strings.
\<close>

definition usable :: "js_env \<Rightarrow> jsval list \<Rightarrow> string \<Rightarrow> bool" where
  "usable env data_in prompt =
     (let dk = classify env data_in
      in 0 < length data_in \<and> prompt \<noteq> [] \<and> 0 < length (trim prompt) \<and>
         truthy_str (keys_nameKey dk) \<and> truthy_str (keys_valueKey dk))"

definition split_keys :: "string \<Rightarrow> string list" where
  "split_keys s = map trim (split_on (\<lambda>c. c = CHR '','') s)"

definition build_config ::
    "js_env \<Rightarrow> jsval list \<Rightarrow> string \<Rightarrow> generator_state \<Rightarrow> generator_state" where
  "build_config env data_in prompt st =
     (let dk = classify env data_in;
          promptLower = trim (toLowerCase prompt);
          (has_trendline, multiple) = detect_trendline promptLower;
          detected = detect_chartType prompt has_trendline;
          kc = choose_compared dk promptLower multiple
                 (choose_mentioned dk (mentionedKeys dk prompt)
                    \<lparr>nameKeyToUse = property_name (keys_nameKey dk),
                     valueKeyToUse = property_name (keys_valueKey dk),
                     dataKeysToUse = None\<rparr>);
          extractedColors = extractColors promptLower;
          echartsConfig = getEChartsConfig detected;
          chart = (if echartsConfig = None then ''bar'' else detected);
          dataToUse = (if 0 < length (flattenedData dk) then flattenedData dk
                       else map (\<lambda>item. case item of JObj props \<Rightarrow> props | _ \<Rightarrow> []) data_in);
          (palette, st1) = (case extractedColors of
                              Some cs \<Rightarrow> (cs, st)
                            | None \<Rightarrow> getRandomColorPalette env 20 st);
          elementConfig =
            \<lparr>nameKey = nameKeyToUse kc,
             valueKey = valueKeyToUse kc,
             dataKeys = (case dataKeysToUse kc of
                           Some joined \<Rightarrow> if joined \<noteq> [] then Some (split_keys joined) else None
                         | None \<Rightarrow> None),
             colors = palette,
             isStacked = (chart = ''stackedbar'' \<or> chart = ''stackedarea''),
             isGrouped = (chart = ''groupedbar''),
             hasTrendline = has_trendline,
             multipleTrendlines = multiple,
             data = dataToUse\<rparr>
      in case echartsConfig of
           None \<Rightarrow>
             st1\<lparr>error := Some (''Failed to generate chart configuration for type: '' @ chart)\<rparr>
         | Some entry \<Rightarrow>
             st1\<lparr>builderCalls := Suc (builderCalls st1),
                 chartConfig :=
                   Some \<lparr>chartType = chart,
                         echartsOption = generateOption env (fst entry) elementConfig,
                         mapping_nameKey = nameKeyToUse kc,
                         mapping_valueKey = valueKeyToUse kc,
                         mapping_dataKeys =
                           (if truthy_str (dataKeysToUse kc) then dataKeysToUse kc else None),
                         config_colors = palette,
                         promptHash = dataPromptHash env data_in prompt\<rparr>,
                 error := None\<rparr>)"

definition assemble ::
    "js_env \<Rightarrow> jsval list \<Rightarrow> string \<Rightarrow> generator_state \<Rightarrow> generator_state" where
  "assemble env data_in prompt st =
     (if usable env data_in prompt
      then if previousHashRef st = dataPromptHash env data_in prompt then st
           else build_config env data_in prompt
                  (st\<lparr>previousHashRef := dataPromptHash env data_in prompt\<rparr>)
      else st\<lparr>previousHashRef := [], chartConfig := None\<rparr>)"

text \<open>The state of a generator that has not run yet.\<close>

definition initial_state :: generator_state where
  "initial_state =
     \<lparr>previousHashRef = [], chartConfig = None, error = None,
      cachedColors = [], colorsDrawn = 0, builderCalls = 0\<rparr>"

section \<open>What the specification says of flattening\<close>





section \<open>What the specification says of whole-word matching\<close>

text \<open>
  A word occurs as a whole word in a text when the text holds it, in either case of its
  letters, with no word character right before it and none right after it.
\<close>

definition whole_word_in :: "string \<Rightarrow> string \<Rightarrow> bool" where
  "whole_word_in w s =
     (\<exists>pre m post. s = pre @ m @ post \<and>
        list_all2 same_letter w m \<and>
        (pre = [] \<or> \<not> is_word (last pre)) \<and> (post = [] \<or> \<not> is_word (hd post)))"

section \<open>Reading an option structure; example inputs\<close>

text \<open>The property of an object and the elements of an array, to state what a builder emits.\<close>

definition field :: "jsval \<Rightarrow> string \<Rightarrow> jsval" where
  "field v k = (case v of JObj props \<Rightarrow> obj_get props k | _ \<Rightarrow> JUndefined)"

definition elements :: "jsval \<Rightarrow> jsval list" where
  "elements v = (case v of JArr xs \<Rightarrow> xs | _ \<Rightarrow> [])"

text \<open>
  Ten records with the values 1 to 10, a record with two resolved fields and a record
  with four, of which the low is not a number.
\<close>

definition values_1_to_10 :: EChartsElementConfig where
  "values_1_to_10 =
     \<lparr>nameKey = ''name'', valueKey = ''value'', dataKeys = None, colors = [''#0066ff''],
      isStacked = False, isGrouped = False, hasTrendline = False, multipleTrendlines = False,
      data = map (\<lambda>v. [(''name'', JStr ''x''), (''value'', num v)]) [1, 2, 3, 4, 5, 6, 7, 8, 9, 10]\<rparr>"



text \<open>The data \<open>[{"name": "Jan", "value": 400}, {"name": "Feb", "value": 300}]\<close>.\<close>

definition jan_feb :: "jsval list" where
  "jan_feb =
     [JObj [(''name'', JStr ''Jan''), (''value'', num 400)],
      JObj [(''name'', JStr ''Feb''), (''value'', num 300)]]"

text \<open>A runtime to run the examples in.\<close>

definition sample_env :: js_env where
  "sample_env =
     \<lparr>dateParses = (\<lambda>s. False), parseFloat = (\<lambda>s. NaN), numberToString = (\<lambda>n. ''0''),
      jsonStringify = (\<lambda>d. Some ''[]''),
      randomColor = (\<lambda>n. ''hsl('' @ show_nat n @ '', 60%, 40%)'')\<rparr>"

section \<open>Evaluation of the character classes\<close>

text \<open>The same classes read off the bits of a character, for evaluation.\<close>

lemma is_upper_Char [code]:
  "is_upper (Char b0 b1 b2 b3 b4 b5 b6 b7) =
     (\<not> b7 \<and> b6 \<and> \<not> b5 \<and> (b4 \<or> b3 \<or> b2 \<or> b1 \<or> b0) \<and> \<not> (b4 \<and> b3 \<and> (b2 \<or> (b1 \<and> b0))))"
  by (cases b0; cases b1; cases b2; cases b3; cases b4; cases b5; cases b6; cases b7;
      simp add: is_upper_def code_def)

lemma is_lower_Char [code]:
  "is_lower (Char b0 b1 b2 b3 b4 b5 b6 b7) =
     (\<not> b7 \<and> b6 \<and> b5 \<and> (b4 \<or> b3 \<or> b2 \<or> b1 \<or> b0) \<and> \<not> (b4 \<and> b3 \<and> (b2 \<or> (b1 \<and> b0))))"
  by (cases b0; cases b1; cases b2; cases b3; cases b4; cases b5; cases b6; cases b7;
      simp add: is_lower_def code_def)

lemma is_digit_Char [code]:
  "is_digit (Char b0 b1 b2 b3 b4 b5 b6 b7) =
     (\<not> b7 \<and> \<not> b6 \<and> b5 \<and> b4 \<and> \<not> (b3 \<and> (b2 \<or> b1)))"
  by (cases b0; cases b1; cases b2; cases b3; cases b4; cases b5; cases b6; cases b7;
      simp add: is_digit_def code_def)

lemma is_word_Char [code]:
  "is_word (Char b0 b1 b2 b3 b4 b5 b6 b7) =
     (\<not> b7 \<and>
      (if b6 then (b4 \<or> b3 \<or> b2 \<or> b1 \<or> b0) \<and> \<not> (b4 \<and> b3 \<and> (b2 \<or> (b1 \<and> b0))) \<or>
                  (\<not> b5 \<and> b4 \<and> b3 \<and> b2 \<and> b1 \<and> b0)
       else b5 \<and> b4 \<and> \<not> (b3 \<and> (b2 \<or> b1))))"
  by (cases b0; cases b1; cases b2; cases b3; cases b4; cases b5; cases b6; cases b7;
      simp add: is_word_def is_upper_Char is_lower_Char is_digit_Char)

lemma is_space_Char [code]:
  "is_space (Char b0 b1 b2 b3 b4 b5 b6 b7) =
     (\<not> b6 \<and> \<not> b4 \<and>
      (if b5 then \<not> b3 \<and> \<not> b2 \<and> \<not> b1 \<and> \<not> b0
       else \<not> b7 \<and> b3 \<and> (if b2 then \<not> b1 else b1 \<or> b0)))"
  by (cases b0; cases b1; cases b2; cases b3; cases b4; cases b5; cases b6; cases b7;
      simp add: is_space_def code_def)

lemma lower_char_Char [code]:
  "lower_char (Char b0 b1 b2 b3 b4 b5 b6 b7) =
     (if is_upper (Char b0 b1 b2 b3 b4 b5 b6 b7) \<or>
         (b7 \<and> b6 \<and> \<not> b5 \<and> \<not> (b4 \<and> b3 \<and> b2 \<and> b1 \<and> b0) \<and> \<not> (b4 \<and> \<not> b3 \<and> b2 \<and> b1 \<and> b0))
      then Char b0 b1 b2 b3 b4 True b6 b7 else Char b0 b1 b2 b3 b4 b5 b6 b7)"
  by (cases b0; cases b1; cases b2; cases b3; cases b4; cases b5; cases b6; cases b7;
      simp add: lower_char_def is_upper_def code_def char_of_def bit_iff_odd)

section \<open>Properties of the field classifier\<close>

lemma map_of_fst_iff: "key \<in> fst ` set xs \<longleftrightarrow> map_of xs key \<noteq> None"
  by (simp add: map_of_eq_None_iff)

text \<open>
  C7 (as amended).  A key of the flattened first record is classified as numeric if and
  only if its value is a number other than \<open>NaN\<close>: the test of the source is
  \<open>typeof value === "number" && !isNaN(value)\<close>, which an infinite value passes.
\<close>

theorem numeric_key_iff_not_NaN:
  "key \<in> set (numericKeys (classify env (firstItem # rest))) \<longleftrightarrow>
     (\<exists>n. map_of (flatten firstItem) key = Some (JNum n) \<and> n \<noteq> NaN)"
proof -
  have "key \<in> set (numericKeys (classify env (firstItem # rest))) \<longleftrightarrow>
        key \<in> fst ` set (flatten firstItem) \<and> is_numeric_value (obj_get (flatten firstItem) key)"
    by (auto simp: classify_def Let_def)
  also have "\<dots> \<longleftrightarrow> (\<exists>n. map_of (flatten firstItem) key = Some (JNum n) \<and> n \<noteq> NaN)"
    by (cases "map_of (flatten firstItem) key")
       (auto simp: map_of_fst_iff is_numeric_value_def obj_get_def split: jsval.splits)
  finally show ?thesis .
qed

text \<open>
  In the record \<open>{x: NaN, y: 2}\<close> the key \<open>y\<close> is numeric and the key \<open>x\<close> is not.
\<close>

theorem numeric_key_iff_not_NaN_witness:
  "''y'' \<in> set (numericKeys (classify sample_env [JObj [(''x'', JNum NaN), (''y'', JNum (Fin 2))]])) \<and>
   ''x'' \<notin> set (numericKeys (classify sample_env [JObj [(''x'', JNum NaN), (''y'', JNum (Fin 2))]]))"
proof -
  have flat: "flatten (JObj [(''x'', JNum NaN), (''y'', JNum (Fin 2))]) =
              [(''x'', JNum NaN), (''y'', JNum (Fin 2))]"
    by code_simp
  show ?thesis
    using numeric_key_iff_not_NaN [of "''y''" sample_env "JObj [(''x'', JNum NaN), (''y'', JNum (Fin 2))]" "[]"]
          numeric_key_iff_not_NaN [of "''x''" sample_env "JObj [(''x'', JNum NaN), (''y'', JNum (Fin 2))]" "[]"]
    unfolding flat by simp
qed

text \<open>
  C7 as stated fails: in the record \<open>{x: Infinity}\<close>, which \<open>JSON.parse\<close> produces from
  \<open>{"x": 1e999}\<close>, the key \<open>x\<close> is classified as numeric although its value is not finite.
\<close>

theorem numeric_key_infinite_counterexample:
  "''x'' \<in> set (numericKeys (classify sample_env [JObj [(''x'', JNum PosInf)]]))"
  by code_simp

section \<open>Properties of the flattener\<close>








section \<open>Properties of the boxplot builder\<close>

lemma mset_insort_cmp: "mset (insort_cmp cmp x xs) = add_mset x (mset xs)"
  by (induction xs) auto

lemma mset_sort_cmp: "mset (sort_cmp cmp xs) = mset xs"
  by (induction xs) (auto simp: sort_cmp_def mset_insort_cmp)

lemma length_sort_cmp: "length (sort_cmp cmp xs) = length xs"
  using mset_sort_cmp [of cmp xs] by (metis size_mset)

lemma set_sort_cmp: "set (sort_cmp cmp xs) = set xs"
  using mset_sort_cmp [of cmp xs] by (metis set_mset_mset)

lemma compare_numbers_le: "compare_numbers a b \<le> 0 \<longleftrightarrow> num_less a b \<or> \<not> num_less b a"
  by (simp add: compare_numbers_def)

lemma num_less_total: "a \<noteq> NaN \<Longrightarrow> b \<noteq> NaN \<Longrightarrow> \<not> num_less b a \<or> \<not> num_less a b"
  by (cases a; cases b) (auto simp: num_less_def)

lemma num_less_asym: "num_less a b \<Longrightarrow> \<not> num_less b a"
  by (cases a; cases b) (auto simp: num_less_def)

lemma num_le_trans: "\<not> num_less b a \<Longrightarrow> \<not> num_less c b \<Longrightarrow> b \<noteq> NaN \<Longrightarrow> \<not> num_less c a"
  by (cases a; cases b; cases c) (auto simp: num_less_def)

lemma sorted_insort_numbers:
  "sorted_wrt (\<lambda>a b. \<not> num_less b a) ys \<Longrightarrow> NaN \<notin> set ys \<Longrightarrow> x \<noteq> NaN \<Longrightarrow>
   sorted_wrt (\<lambda>a b. \<not> num_less b a) (insort_cmp compare_numbers x ys)"
proof (induction ys)
  case Nil
  then show ?case by simp
next
  case (Cons y ys)
  show ?case
  proof (cases "compare_numbers x y \<le> 0")
    case True
    then have xy: "\<not> num_less y x"
      using num_less_asym by (auto simp: compare_numbers_le)
    have "\<not> num_less z x" if "z \<in> set ys" for z
    proof -
      from Cons.prems(1) that have "\<not> num_less z y" by simp
      with xy show ?thesis using Cons.prems(2) num_le_trans [of y x z] by auto
    qed
    with True xy Cons.prems(1) show ?thesis by simp
  next
    case False
    then have yx: "\<not> num_less x y"
      by (auto simp: compare_numbers_le)
    have rest: "sorted_wrt (\<lambda>a b. \<not> num_less b a) (insort_cmp compare_numbers x ys)"
      using Cons by simp
    have "\<not> num_less z y" if "z \<in> set (insort_cmp compare_numbers x ys)" for z
    proof -
      from that have "z = x \<or> z \<in> set ys"
        using mset_insort_cmp [of compare_numbers x ys] by (metis insert_iff set_mset_add_mset_insert set_mset_mset)
      with yx Cons.prems(1) show ?thesis by auto
    qed
    with False rest show ?thesis by simp
  qed
qed

lemma sorted_sort_numbers:
  "NaN \<notin> set xs \<Longrightarrow> sorted_wrt (\<lambda>a b. \<not> num_less b a) (sort_cmp compare_numbers xs)"
proof (induction xs)
  case Nil
  then show ?case by (simp add: sort_cmp_def)
next
  case (Cons x xs)
  then have "sorted_wrt (\<lambda>a b. \<not> num_less b a) (sort_cmp compare_numbers xs)" by simp
  moreover have "NaN \<notin> set (sort_cmp compare_numbers xs)"
    using Cons.prems by (simp add: set_sort_cmp)
  moreover have "x \<noteq> NaN" using Cons.prems by auto
  ultimately have "sorted_wrt (\<lambda>a b. \<not> num_less b a) (insort_cmp compare_numbers x (sort_cmp compare_numbers xs))"
    by (rule sorted_insort_numbers)
  then show ?case by (simp add: sort_cmp_def)
qed

lemma floor_quarter: "nat \<lfloor>real n * 0.25\<rfloor> = n div 4"
proof -
  have "real n * 0.25 = real n / real 4" by simp
  then show ?thesis by (simp only: floor_divide_of_nat_eq nat_int)
qed

lemma floor_half: "nat \<lfloor>real n * 0.5\<rfloor> = n div 2"
proof -
  have "real n * 0.5 = real n / real 2" by simp
  then show ?thesis by (simp only: floor_divide_of_nat_eq nat_int)
qed

lemma floor_three_quarters: "nat \<lfloor>real n * 0.75\<rfloor> = n * 3 div 4"
proof -
  have "real n * 0.75 = real (n * 3) / real 4" by simp
  then show ?thesis by (simp only: floor_divide_of_nat_eq nat_int)
qed

text \<open>
  C5.  The boxplot builder emits one series of type \<open>boxplot\<close> with the single datum
  \<open>[min, Q1, median, Q3, max]\<close>, where \<open>min = sorted[0]\<close>, \<open>Q1 = sorted[floor(n * 0.25)]\<close>,
  \<open>median = sorted[floor(n * 0.5)]\<close>, \<open>Q3 = sorted[floor(n * 0.75)]\<close> and \<open>max = sorted[n - 1]\<close>,
  and \<open>sorted\<close> holds the values of all records (0 for a value that is not a number)
  in ascending order.
\<close>

theorem boxplot_five_number_summary:
  "(\<exists>sorted_values series.
      sorted_values = boxplot_values config \<and>
      mset sorted_values =
        mset (map (\<lambda>item. number_or_zero (obj_get item (valueKey config))) (data config)) \<and>
      (NaN \<notin> set sorted_values \<longrightarrow> sorted_wrt (\<lambda>a b. \<not> num_less b a) sorted_values) \<and>
      elements (field (boxplot_generateOption env config) ''series'') = [series] \<and>
      field series ''type'' = JStr ''boxplot'' \<and>
      elements (field series ''data'') =
        [JArr [num_at sorted_values 0,
               num_at sorted_values (nat \<lfloor>real (length sorted_values) * 0.25\<rfloor>),
               num_at sorted_values (nat \<lfloor>real (length sorted_values) * 0.5\<rfloor>),
               num_at sorted_values (nat \<lfloor>real (length sorted_values) * 0.75\<rfloor>),
               num_at sorted_values (length sorted_values - 1)]])"
proof -
  let ?vs = "boxplot_values config"
  have m: "mset ?vs = mset (map (\<lambda>item. number_or_zero (obj_get item (valueKey config))) (data config))"
    by (simp add: boxplot_values_def mset_sort_cmp)
  have s: "NaN \<notin> set ?vs \<longrightarrow> sorted_wrt (\<lambda>a b. \<not> num_less b a) ?vs"
    by (simp add: boxplot_values_def set_sort_cmp sorted_sort_numbers)
  have o: "elements (field (boxplot_generateOption env config) ''series'') =
        [JObj [(''name'', JStr (valueKey config)),
               (''type'', JStr ''boxplot''),
               (''data'', JArr [JArr (boxplot_summary ?vs)]),
               (''itemStyle'', JObj [(''color'', color_index (colors config) 0)])]]"
    by (simp add: boxplot_generateOption_def field_def elements_def obj_get_def)
  have t: "field (JObj [(''name'', JStr (valueKey config)),
               (''type'', JStr ''boxplot''),
               (''data'', JArr [JArr (boxplot_summary ?vs)]),
               (''itemStyle'', JObj [(''color'', color_index (colors config) 0)])]) ''type'' = JStr ''boxplot''"
    by (simp add: field_def obj_get_def)
  have d: "elements (field (JObj [(''name'', JStr (valueKey config)),
               (''type'', JStr ''boxplot''),
               (''data'', JArr [JArr (boxplot_summary ?vs)]),
               (''itemStyle'', JObj [(''color'', color_index (colors config) 0)])]) ''data'') =
        [JArr [num_at ?vs 0,
               num_at ?vs (nat \<lfloor>real (length ?vs) * 0.25\<rfloor>),
               num_at ?vs (nat \<lfloor>real (length ?vs) * 0.5\<rfloor>),
               num_at ?vs (nat \<lfloor>real (length ?vs) * 0.75\<rfloor>),
               num_at ?vs (length ?vs - 1)]]"
    unfolding floor_quarter floor_half floor_three_quarters
    by (simp add: field_def obj_get_def elements_def boxplot_summary_def Let_def)
  show ?thesis using m s o t d by blast
qed

text \<open>For the values 1 to 10 the datum is \<open>[1, 3, 6, 8, 10]\<close>.\<close>

theorem boxplot_five_number_summary_witness:
  "\<exists>series.
     elements (field (boxplot_generateOption sample_env values_1_to_10) ''series'') = [series] \<and>
     elements (field series ''data'') = [JArr [num 1, num 3, num 6, num 8, num 10]]"
proof -
  have vs: "boxplot_values values_1_to_10 =
              [Fin 1, Fin 2, Fin 3, Fin 4, Fin 5, Fin 6, Fin 7, Fin 8, Fin 9, Fin 10]"
    by (simp add: boxplot_values_def values_1_to_10_def sort_cmp_def compare_numbers_def
          num_less_def number_or_zero_def obj_get_def num_def)
  have q: "nat \<lfloor>real (10::nat) * 0.25\<rfloor> = 2" "nat \<lfloor>real (10::nat) * 0.5\<rfloor> = 5"
          "nat \<lfloor>real (10::nat) * 0.75\<rfloor> = 7"
    by simp_all
  show ?thesis
    using boxplot_five_number_summary [of values_1_to_10 sample_env]
    unfolding vs by (auto simp: q num_at_def num_def)
qed

section \<open>Properties of the candlestick builder\<close>




section \<open>Properties of colour extraction\<close>

lemma unique_filter:
  "unique seen xs = rev (remdups (rev (filter (\<lambda>x. x \<notin> set seen) xs)))"
proof (induction xs arbitrary: seen)
  case Nil
  then show ?case by simp
next
  case (Cons x xs)
  show ?case
  proof (cases "x \<in> set seen")
    case True
    then show ?thesis using Cons.IH [of seen] by simp
  next
    case False
    define ys where "ys = filter (\<lambda>z. z \<notin> set seen) xs"
    have a: "remdups (zs @ [x]) = remdups (filter (\<lambda>z. z \<noteq> x) zs) @ [x]" for zs
      by (induction zs) auto
    have b: "filter (\<lambda>z. z \<noteq> x) ys = filter (\<lambda>z. z \<notin> set (x # seen)) xs"
      unfolding ys_def by (induction xs) auto
    have "rev (remdups (rev (x # ys))) = x # rev (remdups (rev (filter (\<lambda>z. z \<noteq> x) ys)))"
      by (simp add: a rev_filter)
    then have "rev (remdups (rev (filter (\<lambda>z. z \<notin> set seen) (x # xs)))) =
               x # rev (remdups (rev (filter (\<lambda>z. z \<notin> set (x # seen)) xs)))"
      using False unfolding b [symmetric] ys_def by simp
    then show ?thesis using False Cons.IH [of "x # seen"] by simp
  qed
qed

lemma unique_first_occurrences: "unique [] xs = rev (remdups (rev xs))"
  by (simp add: unique_filter)

lemma rx_match_lit:
  "rx_match (lit c) (b, r) =
     (case r of [] \<Rightarrow> []
      | d # ds \<Rightarrow> if same_letter c d
                  then [(d # b, ds)] else [])"
  by (cases r) (simp_all add: lit_def)

lemma rx_match_str:
  "rx_match (str w) (b, r) =
     (if length w \<le> length r \<and>
         list_all2 same_letter
           w (take (length w) r)
      then [(rev (take (length w) r) @ b, drop (length w) r)] else [])"
proof (induction w arbitrary: b r)
  case Nil
  then show ?case by (simp add: str_def)
next
  case (Cons c w)
  have step: "str (c # w) = Seq (lit c) (str w)" by (simp add: str_def)
  show ?case
  proof (cases r)
    case Nil
    then show ?thesis by (simp add: step rx_match_lit)
  next
    case (Cons d ds)
    then show ?thesis using Cons.IH [of "d # b" ds] by (simp add: step rx_match_lit)
  qed
qed

lemma rx_search_iff:
  "rx_search x b r \<longleftrightarrow> (\<exists>pre post. r = pre @ post \<and> rx_match x (rev pre @ b, post) \<noteq> [])"
proof (induction r arbitrary: b)
  case Nil
  then show ?case by simp
next
  case (Cons c cs)
  have "(\<exists>pre post. c # cs = pre @ post \<and> rx_match x (rev pre @ b, post) \<noteq> []) \<longleftrightarrow>
        rx_match x (b, c # cs) \<noteq> [] \<or>
        (\<exists>pre post. cs = pre @ post \<and> rx_match x (rev pre @ c # b, post) \<noteq> [])"
    (is "?L \<longleftrightarrow> ?A \<or> ?B")
  proof
    assume ?L
    then obtain pre post where p: "c # cs = pre @ post" "rx_match x (rev pre @ b, post) \<noteq> []"
      by blast
    show "?A \<or> ?B"
    proof (cases pre)
      case Nil
      with p show ?thesis by simp
    next
      case (Cons e pre')
      with p have "cs = pre' @ post" "rx_match x (rev pre' @ c # b, post) \<noteq> []" by auto
      then show ?thesis by blast
    qed
  next
    assume "?A \<or> ?B"
    then show ?L
    proof
      assume ?A
      then have "c # cs = [] @ (c # cs) \<and> rx_match x (rev [] @ b, c # cs) \<noteq> []" by simp
      then show ?L by blast
    next
      assume ?B
      then obtain pre post where "cs = pre @ post" "rx_match x (rev pre @ c # b, post) \<noteq> []"
        by blast
      then have "c # cs = (c # pre) @ post \<and> rx_match x (rev (c # pre) @ b, post) \<noteq> []" by simp
      then show ?L by blast
    qed
  qed
  then show ?case using Cons.IH [of "c # b"] by simp
qed

lemma word_before_rev: "word_before (rev pre) = (pre \<noteq> [] \<and> is_word (last pre))"
  by (cases pre rule: rev_cases) (simp_all add: word_before_def)

lemma word_before_hd: "word_before post = (post \<noteq> [] \<and> is_word (hd post))"
  by (cases post) (simp_all add: word_before_def)

lemma same_letter_word: "same_letter c d \<Longrightarrow> is_word c \<Longrightarrow> \<not> is_upper c \<Longrightarrow> is_word d"
  by (auto simp: same_letter_def is_word_def)

lemma rx_match_color_name:
  "rx_match (color_name_regex w) (b, r) \<noteq> [] \<longleftrightarrow>
     word_before b \<noteq> word_before r \<and> length w \<le> length r \<and>
     list_all2 same_letter w (take (length w) r) \<and>
     word_before (rev (take (length w) r) @ b) \<noteq> word_before (drop (length w) r)"
  by (simp add: color_name_regex_def rx_match_str)

lemma color_name_regex_whole_word:
  assumes w: "w \<noteq> []" "is_word (hd w)" "is_word (last w)" "list_all (\<lambda>c. \<not> is_upper c) w"
  shows "rx_test (color_name_regex w) s \<longleftrightarrow> whole_word_in w s"
proof -
  have ends: "m \<noteq> [] \<and> is_word (hd m) \<and> is_word (last m)" if "list_all2 same_letter w m" for m
  proof -
    from that w(1) have ne: "m \<noteq> []" by auto
    from that have len: "length w = length m" by (rule list_all2_lengthD)
    have "same_letter (hd w) (hd m)"
      using that w(1) ne by (cases w; cases m) auto
    moreover have "\<not> is_upper (hd w)" using w(1,4) by (cases w) auto
    ultimately have h: "is_word (hd m)" using w(2) same_letter_word by blast
    have "same_letter (last w) (last m)"
      using that w(1) ne len by (simp add: last_conv_nth list_all2_nthD)
    moreover have "\<not> is_upper (last w)" using w(1,4) by (simp add: list_all_iff)
    ultimately have "is_word (last m)" using w(3) same_letter_word by blast
    with ne h show ?thesis by simp
  qed
  show ?thesis
  proof
    assume "rx_test (color_name_regex w) s"
    then obtain pre r where s: "s = pre @ r" and m: "rx_match (color_name_regex w) (rev pre @ [], r) \<noteq> []"
      unfolding rx_test_def rx_search_iff by blast
    let ?m = "take (length w) r" and ?post = "drop (length w) r"
    from m have all: "list_all2 same_letter w ?m" and len: "length w \<le> length r"
      and b1: "word_before (rev pre) \<noteq> word_before r"
      and b2: "word_before (rev ?m @ rev pre) \<noteq> word_before ?post"
      by (simp_all add: rx_match_color_name)
    from ends [OF all] have e: "?m \<noteq> []" "is_word (hd ?m)" "is_word (last ?m)" by blast+
    have r: "r = ?m @ ?post" by simp
    have hr: "hd r = hd ?m"
      using e(1) by (metis r hd_append2)
    have rn: "r \<noteq> []"
      using e(1) by auto
    have "is_word (hd r)"
      unfolding hr by (rule e(2))
    with rn have "word_before r"
      unfolding word_before_hd by simp
    with b1 have p1: "pre = [] \<or> \<not> is_word (last pre)" by (auto simp: word_before_rev)
    from e have "word_before (rev ?m @ rev pre)"
      by (cases ?m rule: rev_cases) (auto simp: word_before_def)
    with b2 have p2: "?post = [] \<or> \<not> is_word (hd ?post)" by (auto simp: word_before_hd)
    from s r have "s = pre @ ?m @ ?post" by simp
    with all p1 p2 show "whole_word_in w s" unfolding whole_word_in_def by blast
  next
    assume "whole_word_in w s"
    then obtain pre m post where s: "s = pre @ m @ post" and all: "list_all2 same_letter w m"
      and p1: "pre = [] \<or> \<not> is_word (last pre)" and p2: "post = [] \<or> \<not> is_word (hd post)"
      unfolding whole_word_in_def by blast
    from all have len: "length w = length m" by (rule list_all2_lengthD)
    from ends [OF all] have e: "m \<noteq> []" "is_word (hd m)" "is_word (last m)" by blast+
    have t: "take (length w) (m @ post) = m" "drop (length w) (m @ post) = post"
      using len by simp_all
    have w1: "word_before (m @ post)" using e by (cases m) (auto simp: word_before_def)
    have w2: "word_before (rev m @ rev pre)"
      using e by (cases m rule: rev_cases) (auto simp: word_before_def)
    have nb: "\<not> word_before (rev pre)"
      unfolding word_before_rev using p1 by blast
    have np: "\<not> word_before post"
      unfolding word_before_hd using p2 by blast
    have "rx_match (color_name_regex w) (rev pre @ [], m @ post) \<noteq> []"
      unfolding rx_match_color_name t
      using all len nb np w1 w2 by simp
    with s show "rx_test (color_name_regex w) s"
      unfolding rx_test_def rx_search_iff by blast
  qed
qed


lemma colorMap_names:
  "list_all (\<lambda>(name, hex). name \<noteq> [] \<and> is_word (hd name) \<and> is_word (last name) \<and>
                list_all (\<lambda>c. \<not> is_upper c) name) colorMap"
  by code_simp

lemma named_colors_whole_word:
  "named_colors p = map snd (filter (\<lambda>(name, hex). whole_word_in name p) colorMap)"
proof -
  have "filter (\<lambda>(name, hex). rx_test (color_name_regex name) p) colorMap =
        filter (\<lambda>(name, hex). whole_word_in name p) colorMap"
  proof (rule filter_cong [OF refl])
    fix e assume e: "e \<in> set colorMap"
    obtain name hex where nh: "e = (name, hex)" by (cases e)
    from colorMap_names e nh
    have "name \<noteq> []" "is_word (hd name)" "is_word (last name)" "list_all (\<lambda>c. \<not> is_upper c) name"
      by (auto simp: list_all_iff)
    then have "rx_test (color_name_regex name) p \<longleftrightarrow> whole_word_in name p"
      by (rule color_name_regex_whole_word)
    with nh show "(case e of (name, hex) \<Rightarrow> rx_test (color_name_regex name) p) =
                  (case e of (name, hex) \<Rightarrow> whole_word_in name p)"
      by simp
  qed
  then show ?thesis by (simp add: named_colors_def)
qed

text \<open>
  C9.  Colour extraction finds the named colours of the table that occur in the prompt
  as whole words, in the order of the table, then the hex literals, a literal of three
  digits written out with six, then the \<open>rgb(...)\<close> and \<open>rgba(...)\<close> literals; it returns
  the colours found without duplicates, each at the place of its first discovery, and
  no colours at all when nothing is found.
\<close>

theorem extractColors_discovery_order:
  "(extractColors p = None \<longleftrightarrow> foundColors p = []) \<and>
   (\<forall>cs. extractColors p = Some cs \<longrightarrow>
      cs = rev (remdups (rev (foundColors p))) \<and> distinct cs \<and> set cs = set (foundColors p)) \<and>
   foundColors p =
     map snd (filter (\<lambda>(name, hex). whole_word_in name p) colorMap) @
     map expand_hex (match_all hex_regex p) @ match_all rgb_regex p \<and>
   (\<forall>r g b. expand_hex [CHR ''#'', r, g, b] = [CHR ''#'', r, r, g, g, b, b])"
proof -
  have u: "unique [] (foundColors p) = rev (remdups (rev (foundColors p)))"
    by (rule unique_first_occurrences)
  have n: "extractColors p = None \<longleftrightarrow> foundColors p = []"
    by (simp add: extractColors_def Let_def u)
  have s: "\<forall>cs. extractColors p = Some cs \<longrightarrow>
      cs = rev (remdups (rev (foundColors p))) \<and> distinct cs \<and> set cs = set (foundColors p)"
    by (auto simp: extractColors_def Let_def u)
  have f: "foundColors p =
     map snd (filter (\<lambda>(name, hex). whole_word_in name p) colorMap) @
     map expand_hex (match_all hex_regex p) @ match_all rgb_regex p"
    by (simp add: foundColors_def named_colors_whole_word)
  have h: "\<forall>r g b. expand_hex [CHR ''#'', r, g, b] = [CHR ''#'', r, r, g, g, b, b]"
    by (simp add: expand_hex_def)
  from n s f h show ?thesis by blast
qed

text \<open>
  \<open>extractColors("make it red and #00ff00")\<close> is \<open>["#ff0000", "#00ff00"]\<close>; a colour named
  twice is returned once; \<open>reddish\<close> does not name the colour \<open>red\<close>.
\<close>

theorem extractColors_discovery_order_witness:
  "extractColors ''make it red and #00ff00'' = Some [''#ff0000'', ''#00ff00''] \<and>
   foundColors ''make it red and #00ff00'' \<noteq> [] \<and>
   extractColors ''make it #f00, red and RGB(0, 0, 255)'' =
     Some [''#ff0000'', ''RGB(0, 0, 255)''] \<and>
   extractColors ''a reddish chart'' = None \<and> foundColors ''a reddish chart'' = []"
proof -
  have a: "extractColors ''make it red and #00ff00'' = Some [''#ff0000'', ''#00ff00'']"
    by code_simp
  have b: "extractColors ''make it #f00, red and RGB(0, 0, 255)'' =
             Some [''#ff0000'', ''RGB(0, 0, 255)'']"
    by code_simp
  have c: "extractColors ''a reddish chart'' = None"
    by code_simp
  have "(extractColors ''make it red and #00ff00'' = None) = (foundColors ''make it red and #00ff00'' = [])"
    using extractColors_discovery_order [of "''make it red and #00ff00''"] by (rule conjunct1)
  with a have d: "foundColors ''make it red and #00ff00'' \<noteq> []"
    by simp
  have "(extractColors ''a reddish chart'' = None) = (foundColors ''a reddish chart'' = [])"
    using extractColors_discovery_order [of "''a reddish chart''"] by (rule conjunct1)
  with c have e: "foundColors ''a reddish chart'' = []"
    by simp
  from a b c d e show ?thesis
    by (intro conjI)
qed

section \<open>Properties of chart-type detection\<close>

lemma set_insort_cmp: "set (insort_cmp cmp x xs) = insert x (set xs)"
  by (induction xs) auto

lemma sorted_insort_by_key:
  "sorted_wrt (\<lambda>a b. k b \<le> k a) ys \<Longrightarrow>
   sorted_wrt (\<lambda>a b. k b \<le> k a) (insort_cmp (\<lambda>a b. int (k b) - int (k a)) x ys)"
  by (induction ys) (auto simp: set_insort_cmp)

lemma sorted_sort_by_key:
  "sorted_wrt (\<lambda>a b. k b \<le> k a) (sort_cmp (\<lambda>a b. int (k b) - int (k a)) xs)"
  by (induction xs) (simp_all add: sort_cmp_def sorted_insort_by_key)

lemma filter_insort_by_key:
  "filter (\<lambda>e. k e = n) (insort_cmp (\<lambda>a b. int (k b) - int (k a)) x ys) =
     (if k x = n then x # filter (\<lambda>e. k e = n) ys else filter (\<lambda>e. k e = n) ys)"
  by (induction ys) auto

lemma filter_sort_by_key:
  "filter (\<lambda>e. k e = n) (sort_cmp (\<lambda>a b. int (k b) - int (k a)) xs) = filter (\<lambda>e. k e = n) xs"
  by (induction xs) (simp_all add: sort_cmp_def filter_insort_by_key)

lemma first_keyword_hit_iff:
  "first_keyword_hit kws lp \<longleftrightarrow> list_ex (\<lambda>kw. rx_test (keyword_regex kw) lp) kws"
  by (induction kws) auto

lemma search_configs_find:
  "search_configs cfgs lp =
     (case find (\<lambda>(t, kws). list_ex (\<lambda>kw. rx_test (keyword_regex kw) lp) kws) cfgs of
        Some (t, kws) \<Rightarrow> t | None \<Rightarrow> ''bar'')"
  by (induction cfgs) (auto simp: first_keyword_hit_iff)

lemma keyword_body_no_space: "list_all (\<lambda>c. \<not> is_space c) kw \<Longrightarrow> keyword_body kw = str kw"
  by (induction kw) (simp_all add: str_def)

text \<open>
  C4 (as amended).  Unless the prompt names a dual or multiple trend line, for which the
  detected type is \<open>line\<close> without any search, chart-type detection goes through the
  entries of the registry in descending order of their longest keyword, entries of the
  same longest keyword in the order of the registry, and returns the first entry one
  of whose keywords matches, \<open>bar\<close> when none does.  A keyword of one word matches
  where it occurs as a whole word.
\<close>

theorem detectEChartsType_search:
  "sorted_wrt (\<lambda>a b. maxKeyword (snd b) \<le> maxKeyword (snd a)) sortedConfigs \<and>
   mset sortedConfigs = mset ECHARTS_TYPE_CONFIGS \<and>
   (\<forall>n. filter (\<lambda>e. maxKeyword (snd e) = n) sortedConfigs =
        filter (\<lambda>e. maxKeyword (snd e) = n) ECHARTS_TYPE_CONFIGS) \<and>
   detectEChartsType prompt =
     (if mentions_multi_trendline (trim (toLowerCase prompt)) then ''line''
      else case find (\<lambda>(t, kws). list_ex (\<lambda>kw. rx_test (keyword_regex kw) (trim (toLowerCase prompt))) kws)
                  sortedConfigs of
             Some (t, kws) \<Rightarrow> t
           | None \<Rightarrow> ''bar'') \<and>
   (\<forall>kw. kw \<noteq> [] \<and> list_all (\<lambda>c. is_lower c \<or> is_digit c) kw \<longrightarrow>
      rx_test (keyword_regex kw) (trim (toLowerCase prompt)) =
      whole_word_in kw (trim (toLowerCase prompt)))"
proof -
  have a: "sorted_wrt (\<lambda>a b. maxKeyword (snd b) \<le> maxKeyword (snd a)) sortedConfigs"
    unfolding sortedConfigs_def by (rule sorted_sort_by_key)
  have b: "mset sortedConfigs = mset ECHARTS_TYPE_CONFIGS"
    unfolding sortedConfigs_def by (rule mset_sort_cmp)
  have c: "\<forall>n. filter (\<lambda>e. maxKeyword (snd e) = n) sortedConfigs =
        filter (\<lambda>e. maxKeyword (snd e) = n) ECHARTS_TYPE_CONFIGS"
    unfolding sortedConfigs_def by (simp add: filter_sort_by_key)
  have d: "detectEChartsType prompt =
     (if mentions_multi_trendline (trim (toLowerCase prompt)) then ''line''
      else case find (\<lambda>(t, kws). list_ex (\<lambda>kw. rx_test (keyword_regex kw) (trim (toLowerCase prompt))) kws)
                  sortedConfigs of
             Some (t, kws) \<Rightarrow> t
           | None \<Rightarrow> ''bar'')"
    by (simp add: detectEChartsType_def Let_def search_configs_find)
  have e: "rx_test (keyword_regex kw) s = whole_word_in kw s"
    if kw: "kw \<noteq> [] \<and> list_all (\<lambda>c. is_lower c \<or> is_digit c) kw" for kw s
  proof -
    have cls: "is_word c \<and> \<not> is_upper c \<and> \<not> is_space c" if "is_lower c \<or> is_digit c" for c
      using that by (auto simp: is_word_def is_upper_def is_lower_def is_digit_def is_space_def)
    from kw have all: "\<forall>c \<in> set kw. is_word c \<and> \<not> is_upper c \<and> \<not> is_space c"
      using cls by (auto simp: list_all_iff)
    then have "keyword_body kw = str kw"
      by (intro keyword_body_no_space) (simp add: list_all_iff)
    then have eq: "keyword_regex kw = color_name_regex kw"
      by (simp add: keyword_regex_def color_name_regex_def)
    from kw all have "is_word (hd kw)" "is_word (last kw)" "list_all (\<lambda>c. \<not> is_upper c) kw"
      by (simp_all add: list_all_iff)
    with kw show ?thesis unfolding eq by (intro color_name_regex_whole_word) simp_all
  qed
  from a b c d e show ?thesis by blast
qed


text \<open>
  The prompt \<open>show me a stacked bar chart\<close> gives \<open>stackedbar\<close> although \<open>bar\<close> occurs in
  it as a whole word, also with capitals and several blanks between the two words;
  \<open>hello\<close> gives \<open>bar\<close>.
\<close>

theorem detectEChartsType_search_witness:
  "detectEChartsType ''show me a stacked bar chart'' = ''stackedbar'' \<and>
   detectEChartsType ''show me a  Stacked   Bar chart'' = ''stackedbar'' \<and>
   detectEChartsType ''hello'' = ''bar'' \<and>
   whole_word_in ''bar'' ''show me a stacked bar chart''"
proof -
  have l1: "trim (toLowerCase ''show me a stacked bar chart'') = ''show me a stacked bar chart''"
    by code_simp
  have n1: "\<not> mentions_multi_trendline ''show me a stacked bar chart''"
    by code_simp
  have f1: "find (\<lambda>(t, kws). list_ex (\<lambda>kw. rx_test (keyword_regex kw) ''show me a stacked bar chart'') kws)
              sortedConfigs =
            Some (''stackedbar'', [''stacked bar'', ''stacked column'', ''stacked bars''])"
    by code_simp
  have l2: "trim (toLowerCase ''show me a  Stacked   Bar chart'') = ''show me a  stacked   bar chart''"
    by code_simp
  have n2: "\<not> mentions_multi_trendline ''show me a  stacked   bar chart''"
    by code_simp
  have f2: "find (\<lambda>(t, kws). list_ex (\<lambda>kw. rx_test (keyword_regex kw) ''show me a  stacked   bar chart'') kws)
              sortedConfigs =
            Some (''stackedbar'', [''stacked bar'', ''stacked column'', ''stacked bars''])"
    by code_simp
  have l3: "trim (toLowerCase ''hello'') = ''hello''"
    by code_simp
  have n3: "\<not> mentions_multi_trendline ''hello''"
    by code_simp
  have f3: "find (\<lambda>(t, kws). list_ex (\<lambda>kw. rx_test (keyword_regex kw) ''hello'') kws) sortedConfigs = None"
    by code_simp
  have w: "rx_test (keyword_regex ''bar'') ''show me a stacked bar chart''"
    by code_simp
  have k: "''bar'' \<noteq> [] \<and> list_all (\<lambda>c. is_lower c \<or> is_digit c) ''bar''"
    by code_simp
  note t1 = detectEChartsType_search [of "''show me a stacked bar chart''", unfolded l1]
  note t2 = detectEChartsType_search [of "''show me a  Stacked   Bar chart''", unfolded l2]
  note t3 = detectEChartsType_search [of "''hello''", unfolded l3]
  have a: "detectEChartsType ''show me a stacked bar chart'' = ''stackedbar''"
    using t1 n1 f1 by simp
  have b: "detectEChartsType ''show me a  Stacked   Bar chart'' = ''stackedbar''"
    using t2 n2 f2 by simp
  have c: "detectEChartsType ''hello'' = ''bar''"
    using t3 n3 f3 by simp
  have d: "whole_word_in ''bar'' ''show me a stacked bar chart''"
    using t1 k w by blast
  from a b c d show ?thesis by (intro conjI)
qed

text \<open>
  C4 as stated fails: no keyword of the registry matches the prompt \<open>dual trendline\<close>,
  and the detected type is \<open>line\<close>, not \<open>bar\<close>.  The order is one of entries, not of
  keywords: in \<open>stacked bar chart of daily sales\<close> the keyword \<open>daily\<close> of the entry
  \<open>calendar\<close> wins over the longer keyword \<open>stacked bar\<close>.
\<close>

theorem detectEChartsType_trendline_counterexample:
  "detectEChartsType ''dual trendline'' = ''line'' \<and>
   find (\<lambda>(t, kws). list_ex (\<lambda>kw. rx_test (keyword_regex kw) ''dual trendline'') kws)
     sortedConfigs = None \<and>
   detectEChartsType ''stacked bar chart of daily sales'' = ''calendar''"
proof -
  have a: "detectEChartsType ''dual trendline'' = ''line''"
    by code_simp
  have b: "find (\<lambda>(t, kws). list_ex (\<lambda>kw. rx_test (keyword_regex kw) ''dual trendline'') kws)
             sortedConfigs = None"
    by code_simp
  have c: "detectEChartsType ''stacked bar chart of daily sales'' = ''calendar''"
    by code_simp
  from a b c show ?thesis by (intro conjI)
qed


section \<open>Properties of the assembler\<close>

lemma build_config_keeps_hash:
  "previousHashRef (build_config env d p st) = previousHashRef st"
  by (simp add: build_config_def Let_def getRandomColorPalette_def
        split: prod.split option.split)

lemma usable_hash: "usable env d p \<Longrightarrow> dataPromptHash env d p \<noteq> []"
  by (auto simp: usable_def dataPromptHash_def Let_def split: option.split)

lemma search_configs_key:
  "search_configs cfgs lp = ''bar'' \<or> search_configs cfgs lp \<in> fst ` set cfgs"
proof (induction cfgs)
  case Nil
  then show ?case by simp
next
  case (Cons c cfgs)
  obtain t kws where c: "c = (t, kws)" by (cases c)
  show ?case
  proof (cases "first_keyword_hit kws lp")
    case True
    then show ?thesis by (simp add: c)
  next
    case False
    then have "search_configs (c # cfgs) lp = search_configs cfgs lp" by (simp add: c)
    with Cons.IH show ?thesis by auto
  qed
qed

lemma registry_has_bar_and_line:
  "''bar'' \<in> fst ` set ECHARTS_TYPE_CONFIGS \<and> ''line'' \<in> fst ` set ECHARTS_TYPE_CONFIGS"
  by (simp add: ECHARTS_TYPE_CONFIGS_def)

lemma detectEChartsType_key: "detectEChartsType p \<in> fst ` set ECHARTS_TYPE_CONFIGS"
proof -
  have "set sortedConfigs = set ECHARTS_TYPE_CONFIGS"
    unfolding sortedConfigs_def by (rule set_sort_cmp)
  then have "search_configs sortedConfigs lp \<in> fst ` set ECHARTS_TYPE_CONFIGS" for lp
    using search_configs_key [of sortedConfigs lp] registry_has_bar_and_line by metis
  moreover have "detectEChartsType p = ''line'' \<or>
      detectEChartsType p = search_configs sortedConfigs (trim (toLowerCase p))"
    by (simp add: detectEChartsType_def Let_def)
  ultimately show ?thesis
    using registry_has_bar_and_line by metis
qed

lemma detect_chartType_known: "getEChartsConfig (detect_chartType p h) \<noteq> None"
proof -
  have "detect_chartType p h \<in> fst ` set ECHARTS_TYPE_CONFIGS"
    using detectEChartsType_key [of p] registry_has_bar_and_line
    by (simp add: detect_chartType_def Let_def)
  then have "map_of ECHARTS_TYPE_CONFIGS (detect_chartType p h) \<noteq> None"
    by (simp add: map_of_eq_None_iff)
  then show ?thesis
    by (auto simp: getEChartsConfig_def split: option.split)
qed

lemma build_config_calls:
  "builderCalls (build_config env d p st) = Suc (builderCalls st)"
proof -
  obtain h m where tr: "detect_trendline (trim (toLowerCase p)) = (h, m)"
    by (cases "detect_trendline (trim (toLowerCase p))")
  obtain e where e: "getEChartsConfig (detect_chartType p h) = Some e"
    using detect_chartType_known [of p h] by auto
  show ?thesis
    by (simp add: build_config_def Let_def tr e getRandomColorPalette_def
          split: prod.split option.split)
qed

lemma build_config_chartType:
  "\<exists>cfg. chartConfig (build_config env d p st) = Some cfg \<and>
         chartType cfg = detect_chartType p (fst (detect_trendline (trim (toLowerCase p))))"
proof -
  obtain h m where tr: "detect_trendline (trim (toLowerCase p)) = (h, m)"
    by (cases "detect_trendline (trim (toLowerCase p))")
  obtain e where e: "getEChartsConfig (detect_chartType p h) = Some e"
    using detect_chartType_known [of p h] by auto
  show ?thesis
    by (simp add: build_config_def Let_def tr e getRandomColorPalette_def
          split: prod.split option.split)
qed

text \<open>
  C2.  A second call of the assembler with the same data and prompt leaves the state,
  and so the stored configuration, as the first call left it.  When the first call
  accepts the pair, it stores the fingerprint and calls a builder of the registry once,
  and the second call calls none: the builder has been called exactly once after both.
  The fingerprint is the trimmed prompt, the length of the data, the length of its
  serialization and the first and last 100 characters of the serialization.
\<close>

theorem assemble_memoized:
  "assemble env d p (assemble env d p st) = assemble env d p st \<and>
   (usable env d p \<and> previousHashRef st \<noteq> dataPromptHash env d p \<longrightarrow>
      previousHashRef (assemble env d p st) = dataPromptHash env d p \<and>
      builderCalls (assemble env d p st) = Suc (builderCalls st) \<and>
      builderCalls (assemble env d p (assemble env d p st)) = Suc (builderCalls st)) \<and>
   (\<forall>dataStr. d \<noteq> [] \<and> p \<noteq> [] \<and> jsonStringify env d = Some dataStr \<longrightarrow>
      dataPromptHash env d p =
        trim p @ ''_'' @ show_nat (length d) @ ''_'' @ show_nat (length dataStr) @ ''_'' @
        take 100 dataStr @ ''_'' @ drop (length dataStr - 100) dataStr)"
proof -
  have idem: "assemble env d p (assemble env d p st) = assemble env d p st"
  proof (cases "usable env d p")
    case True
    have "previousHashRef (assemble env d p st) = dataPromptHash env d p"
      using True by (simp add: assemble_def build_config_keeps_hash)
    then show ?thesis
      using True by (simp add: assemble_def [of env d p "assemble env d p st"])
  next
    case False
    then show ?thesis by (simp add: assemble_def)
  qed
  have once: "previousHashRef (assemble env d p st) = dataPromptHash env d p \<and>
      builderCalls (assemble env d p st) = Suc (builderCalls st) \<and>
      builderCalls (assemble env d p (assemble env d p st)) = Suc (builderCalls st)"
    if "usable env d p \<and> previousHashRef st \<noteq> dataPromptHash env d p"
  proof -
    from that have first: "assemble env d p st =
        build_config env d p (st\<lparr>previousHashRef := dataPromptHash env d p\<rparr>)"
      by (simp add: assemble_def)
    have "builderCalls (assemble env d p st) = Suc (builderCalls st)"
      unfolding first by (simp add: build_config_calls)
    moreover have "previousHashRef (assemble env d p st) = dataPromptHash env d p"
      unfolding first by (simp add: build_config_keeps_hash)
    ultimately show ?thesis by (simp add: idem)
  qed
  have hash: "\<forall>dataStr. d \<noteq> [] \<and> p \<noteq> [] \<and> jsonStringify env d = Some dataStr \<longrightarrow>
      dataPromptHash env d p =
        trim p @ ''_'' @ show_nat (length d) @ ''_'' @ show_nat (length dataStr) @ ''_'' @
        take 100 dataStr @ ''_'' @ drop (length dataStr - 100) dataStr"
    by (simp add: dataPromptHash_def)
  from idem once hash show ?thesis by blast
qed

text \<open>
  From the initial state, two calls with the January and February data and the prompt
  \<open>Create a pie chart\<close> call a builder once.
\<close>

theorem assemble_memoized_witness:
  "assemble sample_env jan_feb ''Create a pie chart''
     (assemble sample_env jan_feb ''Create a pie chart'' initial_state) =
   assemble sample_env jan_feb ''Create a pie chart'' initial_state \<and>
   builderCalls (assemble sample_env jan_feb ''Create a pie chart''
     (assemble sample_env jan_feb ''Create a pie chart'' initial_state)) = 1 \<and>
   dataPromptHash sample_env jan_feb ''Create a pie chart'' = ''Create a pie chart_2_2_[]_[]''"
proof -
  have u: "usable sample_env jan_feb ''Create a pie chart''"
    by code_simp
  have h: "previousHashRef initial_state \<noteq> dataPromptHash sample_env jan_feb ''Create a pie chart''"
    by code_simp
  have j: "jan_feb \<noteq> [] \<and> ''Create a pie chart'' \<noteq> [] \<and> jsonStringify sample_env jan_feb = Some ''[]''"
    by (simp add: jan_feb_def sample_env_def)
  have t: "trim ''Create a pie chart'' = ''Create a pie chart''" "show_nat (length jan_feb) = ''2''"
    "show_nat (length ''[]'') = ''2''"
    by code_simp+
  note m = assemble_memoized [of sample_env jan_feb "''Create a pie chart''" initial_state]
  have a: "assemble sample_env jan_feb ''Create a pie chart''
     (assemble sample_env jan_feb ''Create a pie chart'' initial_state) =
   assemble sample_env jan_feb ''Create a pie chart'' initial_state"
    using m by (rule conjunct1)
  have b: "builderCalls (assemble sample_env jan_feb ''Create a pie chart''
     (assemble sample_env jan_feb ''Create a pie chart'' initial_state)) = 1"
    using m u h by (simp add: initial_state_def)
  have c: "dataPromptHash sample_env jan_feb ''Create a pie chart'' = ''Create a pie chart_2_2_[]_[]''"
    using m j t by simp
  from a b c show ?thesis by (intro conjI)
qed

text \<open>
  C3.  The assembler stores no configuration, whatever was stored before, when the data
  are empty, when the prompt is empty or white space only, or when the classification
  has an empty label key or an empty value key.  The classification of no data has no
  keys and empty label and value keys, and no data with the prompt \<open>bar chart\<close> give
  no configuration.  The assembler is a total function: these cases have no failure.
\<close>

theorem assemble_clears:
  "(d = [] \<or> trim p = [] \<or> \<not> truthy_str (keys_nameKey (classify env d)) \<or>
    \<not> truthy_str (keys_valueKey (classify env d)) \<longrightarrow>
      chartConfig (assemble env d p st) = None \<and> previousHashRef (assemble env d p st) = []) \<and>
   classify env [] =
     \<lparr>allKeys = [], numericKeys = [], stringKeys = [], dateKeys = [],
      keys_nameKey = Some [], keys_valueKey = Some [], flattenedData = []\<rparr> \<and>
   chartConfig (assemble env [] ''bar chart'' st) = None"
proof -
  have a: "chartConfig (assemble env d p st) = None \<and> previousHashRef (assemble env d p st) = []"
    if "d = [] \<or> trim p = [] \<or> \<not> truthy_str (keys_nameKey (classify env d)) \<or>
        \<not> truthy_str (keys_valueKey (classify env d))"
  proof -
    from that have "\<not> usable env d p"
      by (auto simp: usable_def Let_def)
    then show ?thesis by (simp add: assemble_def)
  qed
  have b: "classify env [] =
     \<lparr>allKeys = [], numericKeys = [], stringKeys = [], dateKeys = [],
      keys_nameKey = Some [], keys_valueKey = Some [], flattenedData = []\<rparr>"
    by (simp add: classify_def)
  have "\<not> usable env [] ''bar chart''"
    by (simp add: usable_def Let_def)
  then have c: "chartConfig (assemble env [] ''bar chart'' st) = None"
    by (simp add: assemble_def)
  from a b c show ?thesis by blast
qed

text \<open>
  A stored pie configuration is cleared by a prompt of blanks, by empty data, and by
  data without a numeric field.
\<close>

theorem assemble_clears_witness:
  "chartConfig (assemble sample_env jan_feb ''Create a pie chart'' initial_state) \<noteq> None \<and>
   chartConfig (assemble sample_env jan_feb ''   ''
     (assemble sample_env jan_feb ''Create a pie chart'' initial_state)) = None \<and>
   chartConfig (assemble sample_env [] ''Create a pie chart''
     (assemble sample_env jan_feb ''Create a pie chart'' initial_state)) = None \<and>
   chartConfig (assemble sample_env [JObj [(''name'', JStr ''Jan'')]] ''Create a pie chart''
     (assemble sample_env jan_feb ''Create a pie chart'' initial_state)) = None"
proof -
  let ?st = "assemble sample_env jan_feb ''Create a pie chart'' initial_state"
  have a: "chartConfig ?st \<noteq> None"
    by code_simp
  have t: "trim ''   '' = []"
    by code_simp
  have v: "\<not> truthy_str (keys_valueKey (classify sample_env [JObj [(''name'', JStr ''Jan'')]]))"
    by code_simp
  have b: "chartConfig (assemble sample_env jan_feb ''   '' ?st) = None"
    using assemble_clears [of jan_feb "''   ''" sample_env ?st] t by blast
  have c: "chartConfig (assemble sample_env [] ''Create a pie chart'' ?st) = None"
    using assemble_clears [of "[]" "''Create a pie chart''" sample_env ?st] by blast
  have d: "chartConfig (assemble sample_env [JObj [(''name'', JStr ''Jan'')]] ''Create a pie chart'' ?st) = None"
    using assemble_clears [of "[JObj [(''name'', JStr ''Jan'')]]" "''Create a pie chart''" sample_env ?st] v
    by blast
  from a b c d show ?thesis by (intro conjI)
qed

text \<open>
  C10.  When the prompt holds one of \<open>trendline\<close>, \<open>trend line\<close>, \<open>regression\<close> and
  \<open>linear trend\<close> and the type detected from the keywords is neither \<open>line\<close> nor
  \<open>scatter\<close>, the configuration assembled from usable data, for a pair not assembled
  just before, has the chart type \<open>line\<close>.
\<close>

theorem trendline_overrides_chartType:
  "usable env d p \<and> previousHashRef st \<noteq> dataPromptHash env d p \<and>
   list_ex (str_includes (trim (toLowerCase p)))
     [''trendline'', ''trend line'', ''regression'', ''linear trend''] \<and>
   detectEChartsType p \<noteq> ''line'' \<and> detectEChartsType p \<noteq> ''scatter'' \<longrightarrow>
     (\<exists>cfg. chartConfig (assemble env d p st) = Some cfg \<and> chartType cfg = ''line'')"
proof
  assume h: "usable env d p \<and> previousHashRef st \<noteq> dataPromptHash env d p \<and>
   list_ex (str_includes (trim (toLowerCase p)))
     [''trendline'', ''trend line'', ''regression'', ''linear trend''] \<and>
   detectEChartsType p \<noteq> ''line'' \<and> detectEChartsType p \<noteq> ''scatter''"
  then have "mentions_trendline (trim (toLowerCase p))"
    by (auto simp: mentions_trendline_def)
  then have tr: "fst (detect_trendline (trim (toLowerCase p)))"
    by (simp add: detect_trendline_def)
  from h have first: "assemble env d p st =
      build_config env d p (st\<lparr>previousHashRef := dataPromptHash env d p\<rparr>)"
    by (simp add: assemble_def)
  from h tr have "detect_chartType p (fst (detect_trendline (trim (toLowerCase p)))) = ''line''"
    by (simp add: detect_chartType_def Let_def)
  then show "\<exists>cfg. chartConfig (assemble env d p st) = Some cfg \<and> chartType cfg = ''line''"
    unfolding first
    using build_config_chartType [of env d p "st\<lparr>previousHashRef := dataPromptHash env d p\<rparr>"]
    by simp
qed


text \<open>A bar chart with a single trend line is assembled as a line chart.\<close>

theorem trendline_overrides_chartType_witness:
  "detectEChartsType ''bar chart of value with a trendline'' = ''bar'' \<and>
   (\<exists>cfg. chartConfig (assemble sample_env jan_feb ''bar chart of value with a trendline''
             initial_state) = Some cfg \<and> chartType cfg = ''line'')"
proof -
  have u: "usable sample_env jan_feb ''bar chart of value with a trendline''"
    by code_simp
  have h: "previousHashRef initial_state \<noteq>
           dataPromptHash sample_env jan_feb ''bar chart of value with a trendline''"
    by code_simp
  have k: "list_ex (str_includes (trim (toLowerCase ''bar chart of value with a trendline'')))
             [''trendline'', ''trend line'', ''regression'', ''linear trend'']"
    by code_simp
  have b: "detectEChartsType ''bar chart of value with a trendline'' = ''bar''"
    by code_simp
  from b have n: "detectEChartsType ''bar chart of value with a trendline'' \<noteq> ''line''"
      "detectEChartsType ''bar chart of value with a trendline'' \<noteq> ''scatter''"
    by simp_all
  have "\<exists>cfg. chartConfig (assemble sample_env jan_feb ''bar chart of value with a trendline''
             initial_state) = Some cfg \<and> chartType cfg = ''line''"
    using trendline_overrides_chartType
            [of sample_env jan_feb "''bar chart of value with a trendline''" initial_state]
          u h k n
    by blast
  with b show ?thesis by (intro conjI)
qed

lemma pie_flat:
  "flatten (JObj [(''name'', JStr ''Jan''), (''value'', num 400)]) =
     [(''name'', JStr ''Jan''), (''value'', num 400)]"
  "flatten (JObj [(''name'', JStr ''Feb''), (''value'', num 300)]) =
     [(''name'', JStr ''Feb''), (''value'', num 300)]"
  by code_simp+

lemma pie_patterns: "rx_test name_pattern ''name''" "rx_test value_pattern ''value''"
  by code_simp+

lemma pie_classify:
  "allKeys (classify env jan_feb) = [''name'', ''value'']"
  "numericKeys (classify env jan_feb) = [''value'']"
  "stringKeys (classify env jan_feb) = [''name'']"
  "keys_nameKey (classify env jan_feb) = Some ''name''"
  "keys_valueKey (classify env jan_feb) = Some ''value''"
  "flattenedData (classify env jan_feb) =
     [[(''name'', JStr ''Jan''), (''value'', num 400)], [(''name'', JStr ''Feb''), (''value'', num 300)]]"
  by (simp_all add: classify_def jan_feb_def pie_flat [unfolded num_def] Let_def obj_get_def
        is_numeric_value_def is_string_value_def num_def js_or_def truthy_str_def first_of_def
        pie_patterns)

lemma pie_prompt:
  "trim (toLowerCase ''Create a pie chart'') = ''create a pie chart''"
  "trim ''Create a pie chart'' = ''Create a pie chart''"
  "detect_trendline ''create a pie chart'' = (False, False)"
  "detectEChartsType ''Create a pie chart'' = ''pie''"
  "push_mentioned ''create a pie chart'' [''name'', ''value'']
     (vs_keys [''name'', ''value''] ''Create a pie chart'') = []"
  "str_includes ''create a pie chart'' '' vs '' = False"
  "str_includes ''create a pie chart'' '' versus '' = False"
  "str_includes ''create a pie chart'' '' and '' = False"
  "extractColors ''create a pie chart'' = None"
  "getEChartsConfig ''pie'' = Some (''pie'', [''pie'', ''pies'', ''circle'', ''percentage'', ''proportion''])"
  by code_simp+


lemma pie_usable: "usable env jan_feb ''Create a pie chart''"
  by (simp add: usable_def Let_def pie_classify pie_prompt truthy_str_def) (simp add: jan_feb_def)

lemma pie_mentioned: "mentionedKeys (classify env jan_feb) ''Create a pie chart'' = []"
  by (simp only: mentionedKeys_def pie_classify pie_prompt)

lemma pie_build:
  "getRandomColorPalette env 20 st = (palette, st1) \<Longrightarrow>
   chartConfig (build_config env jan_feb ''Create a pie chart'' st) =
     Some \<lparr>chartType = ''pie'',
           echartsOption =
             Option (pie_generateOption env
               \<lparr>nameKey = ''name'', valueKey = ''value'', dataKeys = None, colors = palette,
                isStacked = False, isGrouped = False, hasTrendline = False,
                multipleTrendlines = False,
                data = [[(''name'', JStr ''Jan''), (''value'', num 400)],
                        [(''name'', JStr ''Feb''), (''value'', num 300)]]\<rparr>),
           mapping_nameKey = ''name'', mapping_valueKey = ''value'', mapping_dataKeys = None,
           config_colors = palette,
           promptHash = dataPromptHash env jan_feb ''Create a pie chart''\<rparr>"
  by (simp add: build_config_def Let_def pie_classify pie_prompt pie_mentioned
        choose_mentioned_def choose_compared_def detect_chartType_def truthy_str_def
        generateOption_def property_name_def)

lemma pie_series:
  "elements (field (pie_generateOption env
               \<lparr>nameKey = ''name'', valueKey = ''value'', dataKeys = None, colors = palette,
                isStacked = False, isGrouped = False, hasTrendline = False,
                multipleTrendlines = False,
                data = [[(''name'', JStr ''Jan''), (''value'', num 400)],
                        [(''name'', JStr ''Feb''), (''value'', num 300)]]\<rparr>) ''series'') =
     [JObj [(''name'', JStr ''value''), (''type'', JStr ''pie''), (''radius'', JStr ''50%''),
            (''data'',
               JArr [JObj [(''value'', num 400), (''name'', JStr ''Jan''),
                           (''itemStyle'', JObj [(''color'', color_at palette 0)])],
                     JObj [(''value'', num 300), (''name'', JStr ''Feb''),
                           (''itemStyle'', JObj [(''color'', color_at palette 1)])]]),
            (''emphasis'',
               JObj [(''itemStyle'',
                        JObj [(''shadowBlur'', num 10), (''shadowOffsetX'', num 0),
                              (''shadowColor'', JStr ''rgba(0, 0, 0, 0.5)'')])])]]"
  by (simp add: pie_generateOption_def field_def elements_def obj_get_def pie_datum_def
        pie_value_def label_of_def truthy_def num_def enumerate_eq_zip upt_rec)

text \<open>
  C1.  For the January and February data and the prompt \<open>Create a pie chart\<close>, in any
  runtime and from any state that does not hold the fingerprint of this pair, the
  assembled configuration has the chart type \<open>pie\<close>, the label key \<open>name\<close> and the value
  key \<open>value\<close>, and the single series of its option is a pie series with exactly the
  two entries \<open>Jan\<close> with value 400 and \<open>Feb\<close> with value 300.
\<close>

theorem pie_chart_scenario:
  "previousHashRef st \<noteq> dataPromptHash env jan_feb ''Create a pie chart'' \<longrightarrow>
   (\<exists>cfg opt series.
      chartConfig (assemble env jan_feb ''Create a pie chart'' st) = Some cfg \<and>
      chartType cfg = ''pie'' \<and>
      mapping_nameKey cfg = ''name'' \<and>
      mapping_valueKey cfg = ''value'' \<and>
      echartsOption cfg = Option opt \<and>
      elements (field opt ''series'') = [series] \<and>
      field series ''type'' = JStr ''pie'' \<and>
      map (\<lambda>entry. (field entry ''name'', field entry ''value'')) (elements (field series ''data'')) =
        [(JStr ''Jan'', num 400), (JStr ''Feb'', num 300)])"
proof
  assume h: "previousHashRef st \<noteq> dataPromptHash env jan_feb ''Create a pie chart''"
  let ?st = "st\<lparr>previousHashRef := dataPromptHash env jan_feb ''Create a pie chart''\<rparr>"
  obtain palette st1 where pal: "getRandomColorPalette env 20 ?st = (palette, st1)"
    by (cases "getRandomColorPalette env 20 ?st")
  let ?config = "\<lparr>nameKey = ''name'', valueKey = ''value'', dataKeys = None, colors = palette,
                isStacked = False, isGrouped = False, hasTrendline = False,
                multipleTrendlines = False,
                data = [[(''name'', JStr ''Jan''), (''value'', num 400)],
                        [(''name'', JStr ''Feb''), (''value'', num 300)]]\<rparr>"
  let ?series = "JObj [(''name'', JStr ''value''), (''type'', JStr ''pie''), (''radius'', JStr ''50%''),
            (''data'',
               JArr [JObj [(''value'', num 400), (''name'', JStr ''Jan''),
                           (''itemStyle'', JObj [(''color'', color_at palette 0)])],
                     JObj [(''value'', num 300), (''name'', JStr ''Feb''),
                           (''itemStyle'', JObj [(''color'', color_at palette 1)])]]),
            (''emphasis'',
               JObj [(''itemStyle'',
                        JObj [(''shadowBlur'', num 10), (''shadowOffsetX'', num 0),
                              (''shadowColor'', JStr ''rgba(0, 0, 0, 0.5)'')])])]"
  have first: "assemble env jan_feb ''Create a pie chart'' st =
               build_config env jan_feb ''Create a pie chart'' ?st"
    using h pie_usable by (simp add: assemble_def)
  have cfg: "chartConfig (assemble env jan_feb ''Create a pie chart'' st) =
     Some \<lparr>chartType = ''pie'',
           echartsOption = Option (pie_generateOption env ?config),
           mapping_nameKey = ''name'', mapping_valueKey = ''value'', mapping_dataKeys = None,
           config_colors = palette,
           promptHash = dataPromptHash env jan_feb ''Create a pie chart''\<rparr>"
    unfolding first using pal by (rule pie_build)
  have ser: "elements (field (pie_generateOption env ?config) ''series'') = [?series]"
    by (rule pie_series)
  have ty: "field ?series ''type'' = JStr ''pie''"
    by (simp add: field_def obj_get_def)
  have entries: "map (\<lambda>entry. (field entry ''name'', field entry ''value''))
                   (elements (field ?series ''data'')) =
                 [(JStr ''Jan'', num 400), (JStr ''Feb'', num 300)]"
    by (simp add: field_def elements_def obj_get_def)
  let ?cfg = "\<lparr>chartType = ''pie'',
           echartsOption = Option (pie_generateOption env ?config),
           mapping_nameKey = ''name'', mapping_valueKey = ''value'', mapping_dataKeys = None,
           config_colors = palette,
           promptHash = dataPromptHash env jan_feb ''Create a pie chart''\<rparr>"
  have sel: "chartType ?cfg = ''pie''" "mapping_nameKey ?cfg = ''name''"
    "mapping_valueKey ?cfg = ''value''"
    "echartsOption ?cfg = Option (pie_generateOption env ?config)"
    by simp_all
  have "chartConfig (assemble env jan_feb ''Create a pie chart'' st) = Some ?cfg \<and>
      chartType ?cfg = ''pie'' \<and>
      mapping_nameKey ?cfg = ''name'' \<and>
      mapping_valueKey ?cfg = ''value'' \<and>
      echartsOption ?cfg = Option (pie_generateOption env ?config) \<and>
      elements (field (pie_generateOption env ?config) ''series'') = [?series] \<and>
      field ?series ''type'' = JStr ''pie'' \<and>
      map (\<lambda>entry. (field entry ''name'', field entry ''value'')) (elements (field ?series ''data'')) =
        [(JStr ''Jan'', num 400), (JStr ''Feb'', num 300)]"
    by (intro conjI cfg sel ser ty entries)
  then show "\<exists>cfg opt series.
      chartConfig (assemble env jan_feb ''Create a pie chart'' st) = Some cfg \<and>
      chartType cfg = ''pie'' \<and>
      mapping_nameKey cfg = ''name'' \<and>
      mapping_valueKey cfg = ''value'' \<and>
      echartsOption cfg = Option opt \<and>
      elements (field opt ''series'') = [series] \<and>
      field series ''type'' = JStr ''pie'' \<and>
      map (\<lambda>entry. (field entry ''name'', field entry ''value'')) (elements (field series ''data'')) =
        [(JStr ''Jan'', num 400), (JStr ''Feb'', num 300)]"
    by - (rule exI, rule exI, rule exI, assumption)
qed

text \<open>The scenario from the initial state.\<close>

theorem pie_chart_scenario_witness:
  "\<exists>cfg opt series.
      chartConfig (assemble sample_env jan_feb ''Create a pie chart'' initial_state) = Some cfg \<and>
      chartType cfg = ''pie'' \<and>
      mapping_nameKey cfg = ''name'' \<and>
      mapping_valueKey cfg = ''value'' \<and>
      echartsOption cfg = Option opt \<and>
      elements (field opt ''series'') = [series] \<and>
      field series ''type'' = JStr ''pie'' \<and>
      map (\<lambda>entry. (field entry ''name'', field entry ''value'')) (elements (field series ''data'')) =
        [(JStr ''Jan'', num 400), (JStr ''Feb'', num 300)]"
proof -
  have h: "previousHashRef initial_state \<noteq> dataPromptHash sample_env jan_feb ''Create a pie chart''"
    by code_simp
  show ?thesis
    using pie_chart_scenario [of initial_state sample_env] h by (rule mp)
qed


end
